theory Spec2Isabelle
  imports Main
begin

section \<open>Strings as the screens use them\<close>

text \<open>
  The screens compare role names and status names after \<^verbatim>\<open>toLowerCase()\<close> and
  \<^verbatim>\<open>toUpperCase()\<close>, and test text for blankness with \<^verbatim>\<open>trim()\<close>.  Strings are byte
  lists here, so the case mappings act on the ASCII letters and leave every other
  byte alone; no character outside ASCII is mapped onto an ASCII letter that occurs in
  the three role names, so the role comparison below is not affected by that.
  \<open>trim\<close> removes the ASCII white space characters at both ends.
\<close>

definition toLowerCase_char :: "char \<Rightarrow> char" where
  "toLowerCase_char c =
     (case map_of (zip ''ABCDEFGHIJKLMNOPQRSTUVWXYZ'' ''abcdefghijklmnopqrstuvwxyz'') c of
        Some d \<Rightarrow> d
      | None \<Rightarrow> c)"

definition toUpperCase_char :: "char \<Rightarrow> char" where
  "toUpperCase_char c =
     (case map_of (zip ''abcdefghijklmnopqrstuvwxyz'' ''ABCDEFGHIJKLMNOPQRSTUVWXYZ'') c of
        Some d \<Rightarrow> d
      | None \<Rightarrow> c)"

definition toLowerCase :: "string \<Rightarrow> string" where
  "toLowerCase s = map toLowerCase_char s"

definition toUpperCase :: "string \<Rightarrow> string" where
  "toUpperCase s = map toUpperCase_char s"

definition is_space :: "char \<Rightarrow> bool" where
  "is_space c \<longleftrightarrow> c \<in> set [CHR '' '', CHR 0x09, CHR 0x0A, CHR 0x0B, CHR 0x0C, CHR 0x0D]"

definition trim :: "string \<Rightarrow> string" where
  "trim s = rev (dropWhile is_space (rev (dropWhile is_space s)))"

text \<open>
  These are the platform's functions on ASCII text.  On other text the platform's
  functions follow the Unicode tables: \<^verbatim>\<open>trim()\<close> also removes the white space and line
  terminator characters outside ASCII, and a case mapping changes letters outside ASCII
  and may change the length of a text.  Licence plates and the fields of the tow and
  vehicle forms are typed by a user and may hold any text, so the screens that handle
  them take the three functions as a parameter: what is proved of these screens holds
  whatever the platform's functions compute.  \<open>ascii\<close> collects the functions above;
  it is the platform as far as ASCII text goes and is used in the examples.  The role
  and status comparisons and the blank test of the complaint response dialog are
  described with the byte functions themselves.
\<close>

record strings =
  String_trim :: "string \<Rightarrow> string"
  String_toUpperCase :: "string \<Rightarrow> string"
  String_toLowerCase :: "string \<Rightarrow> string"

definition ascii :: strings where
  "ascii = \<lparr>String_trim = trim, String_toUpperCase = toUpperCase, String_toLowerCase = toLowerCase\<rparr>"

section \<open>What a screen can do, and what the backend can answer\<close>

text \<open>
  A handler's visible effects: an alert dialog (title, message), a line on the error
  console, and the two router calls.  A backend call either resolves to
  \<^verbatim>\<open>{ data: null, error }\<close>, resolves to \<^verbatim>\<open>{ data, error: null }\<close>, or rejects (the
  \<^verbatim>\<open>await\<close> throws an error with a message).  \<^verbatim>\<open>.single()\<close> reports "no row" as an error object like any
  other, which is why \<open>NoRowFound\<close> is one of the errors.
\<close>

datatype effect =
    Alert string string
  | ConsoleError string
  | RouterReplace string
  | RouterBack

datatype db_error = NoRowFound | BackendUnreachable | ConstraintViolated

datatype 'a reply = Failed db_error | Returned 'a | Threw string

type_synonym timestamp = nat

section \<open>Role router\<close>

text \<open>
  \<^verbatim>\<open>navigateToDashboard(role: string | null)\<close> of \<^verbatim>\<open>utils/navigation\<close>: the result is
  the path name given to \<^verbatim>\<open>router.replace\<close>.  \<^verbatim>\<open>!role\<close> holds for \<^verbatim>\<open>null\<close> and for
  the empty string; the \<^verbatim>\<open>switch\<close> is on \<^verbatim>\<open>role.toLowerCase()\<close>.  The \<^verbatim>\<open>catch\<close>
  branch also replaces with \<^verbatim>\<open>/login\<close>, and nothing in the \<^verbatim>\<open>try\<close> block can throw for
  a string argument.
\<close>

definition navigateToDashboard :: "string option \<Rightarrow> string" where
  "navigateToDashboard role =
     (case role of
        None \<Rightarrow> ''/login''
      | Some r \<Rightarrow>
          if r = [] then ''/login''
          else
            (let l = toLowerCase r in
             if l = ''owner'' then ''/owner''
             else if l = ''staff'' then ''/staff''
             else if l = ''officer'' then ''/officer''
             else ''/login''))"

text \<open>
  The session context (\<^verbatim>\<open>SessionContextType\<close>): the session is represented by the id
  of its user.  The splash screen's effect navigates only once \<^verbatim>\<open>loading\<close> is false.
\<close>

record session_context =
  session :: "string option"
  loading :: bool
  userRole :: "string option"

definition SplashScreen_effect :: "session_context \<Rightarrow> string option" where
  "SplashScreen_effect ctx =
     (if \<not> loading ctx then
        (if session ctx \<noteq> None then Some (navigateToDashboard (userRole ctx))
         else Some ''/login'')
      else None)"

section \<open>Role lookup\<close>

text \<open>
  \<^verbatim>\<open>fetchUserRole\<close> of the session provider queries
  \<^verbatim>\<open>profiles.select('role').eq('id', userId).single()\<close> and stores the outcome in
  \<^verbatim>\<open>userRole\<close>; the function gives the stored value for each possible reply.
\<close>

record profile_row =
  role :: "string option"

definition fetchUserRole :: "profile_row reply \<Rightarrow> string option" where
  "fetchUserRole rep =
     (case rep of
        Failed e \<Rightarrow> None
      | Returned data \<Rightarrow>
          (case role data of
             None \<Rightarrow> None
           | Some r \<Rightarrow> if r = [] then None else Some r)
      | Threw msg \<Rightarrow> None)"

text \<open>
  \<^verbatim>\<open>handleLogin\<close> of the login screen, after \<^verbatim>\<open>validateForm()\<close>: the first argument is
  the reply of \<^verbatim>\<open>signInWithPassword\<close> (an error message, or the user id if any), the
  second the reply of the profile query it issues itself.
\<close>

definition handleLogin ::
  "bool \<Rightarrow> string + string option \<Rightarrow> profile_row reply \<Rightarrow> effect list" where
  "handleLogin valid signIn prof =
     (if \<not> valid then []
      else
        (case signIn of
           Inl msg \<Rightarrow> [ConsoleError ''Login error:'', ConsoleError ''Caught login error:'',
                       Alert ''Login Error'' (if msg = [] then ''Failed to sign in'' else msg)]
         | Inr None \<Rightarrow> [Alert ''Login Error'' ''No user data returned'']
         | Inr (Some uid) \<Rightarrow>
             (case prof of
                Failed e \<Rightarrow> [ConsoleError ''Error fetching profile:'',
                             Alert ''Profile Error'' ''Could not fetch user profile'']
              | Threw msg \<Rightarrow> [ConsoleError ''Caught login error:'',
                              Alert ''Login Error'' (if msg = [] then ''Failed to sign in'' else msg)]
              | Returned data \<Rightarrow>
                  (case role data of
                     None \<Rightarrow> [Alert ''Role Error'' ''No role assigned to user'']
                   | Some r \<Rightarrow>
                       if r = [] then [Alert ''Role Error'' ''No role assigned to user'']
                       else
                         (let l = toLowerCase r in
                          if l = ''owner'' then [RouterReplace ''/owner'']
                          else if l = ''staff'' then [RouterReplace ''/staff'']
                          else if l = ''officer'' then [RouterReplace ''/officer'']
                          else [Alert ''Role Error'' (''Unknown role: '' @ r)])))))"

section \<open>Tables\<close>

text \<open>
  The rows of the backend tables, with the columns the screens read and write.  Field
  names carry the table's initial because two records cannot share a field name.
  Date columns hold ISO-8601 text in the source; a date is represented by the instant
  it denotes, in milliseconds.  An amount is a number of hundredths.
\<close>

record vehicle =
  v_id :: string
  v_license_plate :: string
  v_make :: "string option"
  v_model :: string
  v_color :: string
  v_owner_id :: "string option"
  v_registered_name :: "string option"

datatype fine_status = unpaid | paid | overdue

record fine =
  f_id :: string
  f_vehicle_id :: string
  f_amount :: nat
  f_description :: string
  f_issue_date :: timestamp
  f_due_date :: "timestamp option"
  f_status :: fine_status
  f_payment_date :: "timestamp option"
  f_transaction_id :: "string option"
  f_tow_id :: "string option"
  f_created_by :: "string option"

record tow =
  t_id :: string
  t_vehicle_id :: "string option"
  t_license_plate :: string
  t_location :: string
  t_reason :: string
  t_tow_date :: timestamp
  t_status :: string
  t_notes :: string
  t_created_by :: "string option"

datatype complaint_status = pending | in_review | resolved | rejected

record complaint =
  c_id :: string
  c_user_id :: string
  c_subject :: string
  c_description :: string
  c_vehicle_id :: "string option"
  c_fine_id :: "string option"
  c_tow_id :: "string option"
  c_status :: complaint_status
  c_created_at :: timestamp
  c_response :: "string option"
  c_resolved_at :: "timestamp option"
  c_resolved_by :: "string option"

record notification =
  n_user_id :: string
  n_type :: string
  n_title :: string
  n_message :: string
  n_related_id :: string
  n_is_read :: bool

text \<open>
  The columns of a \<^verbatim>\<open>profiles\<close> row that the staff screens select,
  \<^verbatim>\<open>id, email, full_name, phone\<close>.  No flow described here writes that table.
\<close>

record owner_profile =
  p_id :: string
  p_email :: string
  p_full_name :: "string option"
  p_phone :: "string option"

record database =
  vehicles :: "vehicle list"
  tows :: "tow list"
  fines :: "fine list"
  complaints :: "complaint list"
  notifications :: "notification list"

text \<open>Decimal text of a number, as a template literal renders it.\<close>

definition digit_char :: "nat \<Rightarrow> char" where
  "digit_char d = ''0123456789'' ! (d mod 10)"

fun string_of_nat :: "nat \<Rightarrow> string" where
  "string_of_nat n =
     (if n < 10 then [digit_char n] else string_of_nat (n div 10) @ [digit_char (n mod 10)])"

definition toFixed2 :: "nat \<Rightarrow> string" where
  "toFixed2 a =
     string_of_nat (a div 100) @ ''.'' @ [digit_char (a mod 100 div 10), digit_char (a mod 10)]"

section \<open>Owner reads\<close>






text \<open>
  \<^verbatim>\<open>fetchComplaints\<close> of the owner's complaint list.  The main query is
  \<^verbatim>\<open>from('complaints').select('*').eq('user_id', session.user.id).order('created_at',
  { ascending: false })\<close>.  The rows it returns are then completed with the vehicle, tow
  and fine they reference, looked up by id with \<^verbatim>\<open>.in('id', ids)\<close>; an error of such
  a lookup is ignored and leaves the complaints without that attachment.  The lookups
  select a few columns of the referenced rows; the whole row stands for them here.

  The rows of a lookup are put into a plain object under their ids, and a reference is
  resolved by \<^verbatim>\<open>map[id]\<close>.  A reference that matches no row and names a property every
  object inherits (\<^verbatim>\<open>constructor\<close>, \<^verbatim>\<open>toString\<close>, \<dots>) therefore finds that property,
  which is truthy and is attached in the place of a row: this is \<open>Inherited\<close>.  Row
  ids are generated by the backend; a row whose id is \<^verbatim>\<open>__proto__\<close>, whose assignment
  would replace the object's prototype, is left out of the model.
\<close>

datatype 'r looked_up = Row 'r | Inherited string

definition Object_prototype :: "string list" where
  "Object_prototype =
     [''constructor'', ''toString'', ''toLocaleString'', ''valueOf'', ''hasOwnProperty'',
      ''isPrototypeOf'', ''propertyIsEnumerable'', ''__proto__'', ''__defineGetter__'',
      ''__defineSetter__'', ''__lookupGetter__'', ''__lookupSetter__'']"

record complete_complaint =
  cc_complaint :: complaint
  cc_vehicles :: "vehicle looked_up option"
  cc_tows :: "tow looked_up option"
  cc_fines :: "fine looked_up option"



definition attach :: "(string \<rightharpoonup> 'r) \<Rightarrow> string option \<Rightarrow> 'r looked_up option" where
  "attach m ref =
     (case ref of
        None \<Rightarrow> None
      | Some i \<Rightarrow>
          if i = [] then None
          else
            (case m i of
               Some r \<Rightarrow> Some (Row r)
             | None \<Rightarrow> if i \<in> set Object_prototype then Some (Inherited i) else None))"

definition completeComplaint ::
  "(string \<rightharpoonup> vehicle) \<Rightarrow> (string \<rightharpoonup> tow) \<Rightarrow> (string \<rightharpoonup> fine) \<Rightarrow> complaint \<Rightarrow> complete_complaint" where
  "completeComplaint vehiclesMap towsMap finesMap c =
     \<lparr>cc_complaint = c,
      cc_vehicles = attach vehiclesMap (c_vehicle_id c),
      cc_tows = attach towsMap (c_tow_id c),
      cc_fines = attach finesMap (c_fine_id c)\<rparr>"



record fine_view =
  fv_fine :: fine
  fv_license_plate :: string
  fv_model :: string
  fv_color :: string


















section \<open>Fine details: status badge and payment\<close>

text \<open>
  The state of the fine details screen.  \<^verbatim>\<open>handlePayFine\<close> looks at the loaded copy only;
  \<^verbatim>\<open>processPayment\<close> writes through
  \<^verbatim>\<open>from('fines').update({status, payment_date, transaction_id}).eq('id', \<dots>).eq('vehicle_id', \<dots>)\<close>,
  one call that sets the three columns of every row matching both filters.
\<close>

record fine_screen =
  fineDetails :: "fine_view option"
  paymentModalVisible :: bool
  processingPayment :: bool

definition handlePayFine :: "fine_screen \<Rightarrow> fine_screen \<times> effect list" where
  "handlePayFine scr =
     (if map_option (f_status \<circ> fv_fine) (fineDetails scr) = Some paid
      then (scr, [Alert ''Already Paid'' ''This fine has already been paid.''])
      else (scr\<lparr>paymentModalVisible := True\<rparr>, []))"

text \<open>
  \<^verbatim>\<open>`TX-${Math.floor(Math.random() * 1000000)}-${Date.now()}`\<close>: \<open>rnd\<close> is the random
  draw below one million, \<open>now\<close> the clock in milliseconds.
\<close>

definition mockTransactionId :: "nat \<Rightarrow> timestamp \<Rightarrow> string" where
  "mockTransactionId rnd now = ''TX-'' @ string_of_nat rnd @ ''-'' @ string_of_nat now"

definition update_fines_paid :: "string \<Rightarrow> string \<Rightarrow> timestamp \<Rightarrow> string \<Rightarrow> fine list \<Rightarrow> fine list" where
  "update_fines_paid ident vid now tx =
     map (\<lambda>f. if f_id f = ident \<and> f_vehicle_id f = vid
              then f\<lparr>f_status := paid, f_payment_date := Some now, f_transaction_id := Some tx\<rparr>
              else f)"

text \<open>
  \<open>now_id\<close>, \<open>now_db\<close> and \<open>now_local\<close> are the three clock readings of one call
  (\<^verbatim>\<open>Date.now()\<close> for the identifier, \<^verbatim>\<open>new Date()\<close> for the update, \<^verbatim>\<open>new Date()\<close> for
  the local copy); \<open>fault\<close> is the error of the update, if it fails.
\<close>

definition processPayment ::
  "string option \<Rightarrow> nat \<Rightarrow> timestamp \<Rightarrow> timestamp \<Rightarrow> timestamp \<Rightarrow> db_error option \<Rightarrow>
   fine_screen \<times> database \<Rightarrow> (fine_screen \<times> database) \<times> effect list" where
  "processPayment sess rnd now_id now_db now_local fault st =
     (case st of (scr, db) \<Rightarrow>
       (case fineDetails scr of
          None \<Rightarrow> ((scr, db), [])
        | Some fv \<Rightarrow>
            if sess = None then ((scr, db), [])
            else
              (let mockTx = mockTransactionId rnd now_id in
               case fault of
                 Some e \<Rightarrow>
                   ((scr\<lparr>processingPayment := False\<rparr>, db),
                    [ConsoleError ''Error processing payment:'',
                     Alert ''Payment Failed'' ''Failed to process your payment. Please try again.''])
               | None \<Rightarrow>
                   ((scr\<lparr>fineDetails :=
                            Some (fv\<lparr>fv_fine := (fv_fine fv)\<lparr>f_status := paid,
                                                              f_payment_date := Some now_local,
                                                              f_transaction_id := Some mockTx\<rparr>\<rparr>),
                          paymentModalVisible := False,
                          processingPayment := False\<rparr>,
                     db\<lparr>fines := update_fines_paid (f_id (fv_fine fv)) (f_vehicle_id (fv_fine fv))
                                    now_db mockTx (fines db)\<rparr>),
                    [Alert ''Payment Successful''
                       (''Your payment of $'' @ toFixed2 (f_amount (fv_fine fv)) @
                        '' has been processed successfully.'')]))))"

text \<open>
  What the rendered screen lets the user do.  The amount card shows the Pay Now button
  only while the loaded status is not \<open>paid\<close>; the dialog's Confirm and Cancel
  buttons exist while the dialog is visible and are disabled while a payment is being
  processed.
\<close>

datatype fine_event =
    PressPayNow
  | PressConfirm nat timestamp timestamp timestamp "db_error option"
  | PressCancel

definition fine_screen_step ::
  "string option \<Rightarrow> fine_event \<Rightarrow> fine_screen \<times> database \<Rightarrow> fine_screen \<times> database" where
  "fine_screen_step sess ev st =
     (case st of (scr, db) \<Rightarrow>
       (case ev of
          PressPayNow \<Rightarrow>
            if fineDetails scr \<noteq> None \<and> map_option (f_status \<circ> fv_fine) (fineDetails scr) \<noteq> Some paid
            then (fst (handlePayFine scr), db) else (scr, db)
        | PressConfirm rnd now_id now_db now_local fault \<Rightarrow>
            if paymentModalVisible scr \<and> \<not> processingPayment scr
            then fst (processPayment sess rnd now_id now_db now_local fault (scr, db)) else (scr, db)
        | PressCancel \<Rightarrow>
            if paymentModalVisible scr \<and> \<not> processingPayment scr
            then (scr\<lparr>paymentModalVisible := False\<rparr>, db) else (scr, db)))"

fun fine_screen_run ::
  "string option \<Rightarrow> fine_event list \<Rightarrow> fine_screen \<times> database \<Rightarrow> fine_screen \<times> database" where
  "fine_screen_run sess [] st = st"
| "fine_screen_run sess (ev # evs) st = fine_screen_run sess evs (fine_screen_step sess ev st)"

text \<open>
  The status badge.  On the details screen \<^verbatim>\<open>isPastDue\<close> is computed at each render from
  the clock (\<^verbatim>\<open>isAfter(new Date(), parseISO(due_date))\<close> is a strict comparison) and the
  badge shows \<^verbatim>\<open>isPastDue ? 'overdue' : fineDetails.status\<close>.  The list component
  \<^verbatim>\<open>FineItem\<close> receives \<^verbatim>\<open>status={item.status}\<close> from the fine history list and shows it
  as it is; it has no access to the clock.  Both upper-case the text.
\<close>

definition status_text :: "fine_status \<Rightarrow> string" where
  "status_text s = (case s of unpaid \<Rightarrow> ''unpaid'' | paid \<Rightarrow> ''paid'' | overdue \<Rightarrow> ''overdue'')"

definition isPastDue :: "fine \<Rightarrow> timestamp \<Rightarrow> bool" where
  "isPastDue f now =
     (case f_due_date f of None \<Rightarrow> False | Some due \<Rightarrow> due < now \<and> f_status f = unpaid)"

definition StatusBadge :: "string \<Rightarrow> string" where
  "StatusBadge status = toUpperCase status"

definition FineDetailsScreen_badge :: "fine \<Rightarrow> timestamp \<Rightarrow> string" where
  "FineDetailsScreen_badge f now =
     StatusBadge (if isPastDue f now then ''overdue'' else status_text (f_status f))"

definition FineItem :: "fine_status \<Rightarrow> string" where
  "FineItem status = toUpperCase (status_text status)"

definition renderItem :: "fine \<Rightarrow> string" where
  "renderItem item = FineItem (f_status item)"

text \<open>
  The two places that create fines: \<^verbatim>\<open>issueFine\<close> of the issue-fine screen and the fine
  step of the tow recording flow.  Both insert \<^verbatim>\<open>status: 'unpaid'\<close> with a due date and
  name neither \<^verbatim>\<open>payment_date\<close> nor \<^verbatim>\<open>transaction_id\<close>, which therefore stay
  \<^verbatim>\<open>null\<close>.  \<open>new_id\<close> is the id the backend gives the row.
\<close>

definition new_fine ::
  "string \<Rightarrow> string \<Rightarrow> nat \<Rightarrow> string \<Rightarrow> timestamp \<Rightarrow> timestamp \<Rightarrow> string option \<Rightarrow> string option \<Rightarrow> fine" where
  "new_fine new_id vid amount descr issued due creator towid =
     \<lparr>f_id = new_id, f_vehicle_id = vid, f_amount = amount, f_description = descr,
      f_issue_date = issued, f_due_date = Some due, f_status = unpaid,
      f_payment_date = None, f_transaction_id = None, f_tow_id = towid, f_created_by = creator\<rparr>"

definition thirty_days :: nat where
  "thirty_days = 30 * 24 * 60 * 60 * 1000"

text \<open>
  The fine tables that the application's writes can produce from an empty table: the
  two inserts and the payment update, at any clock readings.
\<close>

inductive reachable_fines :: "fine list \<Rightarrow> bool" where
  no_fines: "reachable_fines []"
| issued: "reachable_fines fs \<Longrightarrow>
     reachable_fines (fs @ [new_fine new_id vid amount descr issued due creator towid])"
| payment: "reachable_fines fs \<Longrightarrow>
     reachable_fines (update_fines_paid ident vid now_db (mockTransactionId rnd now_id) fs)"

section \<open>Complaint review\<close>

text \<open>
  \<^verbatim>\<open>fetchComplaints\<close> of the complaint review screen, which staff and officers use.  The
  main query is \<^verbatim>\<open>from('complaints').select('*')\<close>, with \<^verbatim>\<open>.eq('status', activeTab)\<close>
  unless the tab is \<^verbatim>\<open>'all'\<close> (\<open>None\<close> below), ordered by creation date, newest first.
  It carries no filter on the user.  The rows are completed as in the owner's list, and
  with the profile of the submitting user as well; \<open>profiles\<close> are the rows of the
  \<^verbatim>\<open>profiles\<close> table.
\<close>

record reviewed_complaint =
  rc_complaint :: complaint
  rc_profiles :: "owner_profile looked_up option"
  rc_vehicles :: "vehicle looked_up option"
  rc_tows :: "tow looked_up option"
  rc_fines :: "fine looked_up option"

definition completeReviewed ::
  "(string \<rightharpoonup> owner_profile) \<Rightarrow> (string \<rightharpoonup> vehicle) \<Rightarrow> (string \<rightharpoonup> tow) \<Rightarrow> (string \<rightharpoonup> fine) \<Rightarrow>
   complaint \<Rightarrow> reviewed_complaint" where
  "completeReviewed profilesMap vehiclesMap towsMap finesMap c =
     \<lparr>rc_complaint = c,
      rc_profiles = attach profilesMap (Some (c_user_id c)),
      rc_vehicles = attach vehiclesMap (c_vehicle_id c),
      rc_tows = attach towsMap (c_tow_id c),
      rc_fines = attach finesMap (c_fine_id c)\<rparr>"


text \<open>
  \<^verbatim>\<open>updateComplaintStatus(id, newStatus, response?)\<close> of the complaint review screen.
  \<^verbatim>\<open>updateData\<close> always has the status, has the response when one is given and is not
  empty, and has \<^verbatim>\<open>resolved_at\<close> and \<^verbatim>\<open>resolved_by\<close> when the new status is
  \<^verbatim>\<open>'resolved'\<close>; the update is one call filtered by id.
\<close>

definition update_complaint ::
  "string \<Rightarrow> complaint_status \<Rightarrow> string option \<Rightarrow> timestamp \<Rightarrow> string \<Rightarrow> complaint list \<Rightarrow> complaint list" where
  "update_complaint ident newStatus response now uid =
     map (\<lambda>c. if c_id c = ident
              then
                (let c1 = c\<lparr>c_status := newStatus\<rparr>;
                     c2 = (case response of
                             None \<Rightarrow> c1
                           | Some r \<Rightarrow> if r = [] then c1 else c1\<lparr>c_response := Some r\<rparr>)
                 in if newStatus = resolved
                    then c2\<lparr>c_resolved_at := Some now, c_resolved_by := Some uid\<rparr>
                    else c2)
              else c)"

definition complaint_status_text :: "complaint_status \<Rightarrow> string" where
  "complaint_status_text s =
     (case s of pending \<Rightarrow> ''pending'' | in_review \<Rightarrow> ''in review''
              | resolved \<Rightarrow> ''resolved'' | rejected \<Rightarrow> ''rejected'')"

definition complaint_notification :: "complaint \<Rightarrow> string \<Rightarrow> complaint_status \<Rightarrow> notification" where
  "complaint_notification c ident newStatus =
     \<lparr>n_user_id = c_user_id c, n_type = ''complaint_update'',
      n_title = ''Complaint '' @ (if newStatus = resolved then ''Resolved'' else ''Updated''),
      n_message =
        (if newStatus = resolved
         then ''Your complaint \"'' @ c_subject c @ ''\" has been resolved.''
         else ''Your complaint \"'' @ c_subject c @ ''\" has been updated to '' @
              complaint_status_text newStatus @ ''.''),
      n_related_id = ident, n_is_read = False\<rparr>"

text \<open>
  \<open>shown\<close> is the screen's loaded list of complaints, in which the complaint to notify
  about is looked up; \<open>fault\<close> is the error of the update and \<open>nfault\<close> that of the
  notification insert, whose result the code does not look at.
\<close>

definition updateComplaintStatus ::
  "string option \<Rightarrow> timestamp \<Rightarrow> db_error option \<Rightarrow> db_error option \<Rightarrow> complaint list \<Rightarrow>
   string \<Rightarrow> complaint_status \<Rightarrow> string option \<Rightarrow> database \<Rightarrow> database \<times> effect list" where
  "updateComplaintStatus sess now fault nfault shown ident newStatus response db =
     (case sess of
        None \<Rightarrow> (db, [])
      | Some uid \<Rightarrow>
          (case fault of
             Some e \<Rightarrow>
               (db, [ConsoleError ''Error updating complaint:'',
                     Alert ''Error'' ''Failed to update complaint. Please try again.''])
           | None \<Rightarrow>
               (let db1 = db\<lparr>complaints := update_complaint ident newStatus response now uid (complaints db)\<rparr>;
                    db2 = (case find (\<lambda>c. c_id c = ident) shown of
                             None \<Rightarrow> db1
                           | Some c \<Rightarrow>
                               if c_user_id c = [] \<or> nfault \<noteq> None then db1
                               else db1\<lparr>notifications :=
                                          notifications db1 @ [complaint_notification c ident newStatus]\<rparr>)
                in (db2,
                    [Alert ''Success''
                       (if response \<noteq> None \<and> response \<noteq> Some []
                        then ''Response submitted and complaint updated to '' @
                             complaint_status_text newStatus @ ''.''
                        else ''Complaint status updated to '' @ complaint_status_text newStatus @ ''.'')]))))"

text \<open>
  \<^verbatim>\<open>handleStatusChange\<close>: for \<^verbatim>\<open>'resolved'\<close> a confirmation dialog comes first and
  \<open>confirmed\<close> says whether its Resolve button is pressed.  No response is passed on.
\<close>

definition handleStatusChange ::
  "string option \<Rightarrow> timestamp \<Rightarrow> db_error option \<Rightarrow> db_error option \<Rightarrow> complaint list \<Rightarrow> bool \<Rightarrow>
   string \<Rightarrow> complaint_status \<Rightarrow> database \<Rightarrow> database \<times> effect list" where
  "handleStatusChange sess now fault nfault shown confirmed ident newStatus db =
     (if newStatus = resolved then
        (if confirmed
         then updateComplaintStatus sess now fault nfault shown ident newStatus None db
         else (db, []))
      else updateComplaintStatus sess now fault nfault shown ident newStatus None db)"

text \<open>
  \<^verbatim>\<open>handleSubmitResponse\<close> of the response dialog: \<open>selectedComplaint\<close>,
  \<open>selectedStatus\<close> and \<open>responseText\<close> are the dialog's state.
\<close>

definition handleSubmitResponse ::
  "string option \<Rightarrow> timestamp \<Rightarrow> db_error option \<Rightarrow> db_error option \<Rightarrow> complaint list \<Rightarrow>
   complaint option \<Rightarrow> complaint_status \<Rightarrow> string \<Rightarrow> database \<Rightarrow> database \<times> effect list" where
  "handleSubmitResponse sess now fault nfault shown selectedComplaint selectedStatus responseText db =
     (case selectedComplaint of
        None \<Rightarrow> (db, [])
      | Some sel \<Rightarrow>
          if trim responseText = []
          then (db, [Alert ''Error'' ''Please enter a response before submitting.''])
          else updateComplaintStatus sess now fault nfault shown (c_id sel) selectedStatus
                 (Some responseText) db)"

text \<open>
  A complaint is created by the owner's complaint form (\<^verbatim>\<open>handleSubmit\<close>) with
  \<^verbatim>\<open>status: 'pending'\<close> and no response or resolution columns.
\<close>

definition new_complaint ::
  "string \<Rightarrow> string \<Rightarrow> string \<Rightarrow> string \<Rightarrow> string option \<Rightarrow> string option \<Rightarrow> string option \<Rightarrow>
   timestamp \<Rightarrow> complaint" where
  "new_complaint new_id uid subject descr vid fid tid created =
     \<lparr>c_id = new_id, c_user_id = uid, c_subject = subject, c_description = descr,
      c_vehicle_id = vid, c_fine_id = fid, c_tow_id = tid, c_status = pending,
      c_created_at = created, c_response = None, c_resolved_at = None, c_resolved_by = None\<rparr>"

text \<open>
  The databases the complaint screens can produce.  The review screen offers Mark In
  Review and Resolve as one-tap actions (\<^verbatim>\<open>handleStatusChange\<close> with \<^verbatim>\<open>'in_review'\<close> and
  \<^verbatim>\<open>'resolved'\<close>) and the response dialog with all four statuses.
\<close>

inductive reachable_complaints :: "database \<Rightarrow> bool" where
  no_complaints: "complaints db = [] \<Longrightarrow> reachable_complaints db"
| submitted: "reachable_complaints db \<Longrightarrow>
     reachable_complaints
       (db\<lparr>complaints := complaints db @ [new_complaint new_id uid subject descr vid fid tid created]\<rparr>)"
| mark_in_review: "reachable_complaints db \<Longrightarrow>
     reachable_complaints (fst (handleStatusChange sess now fault nfault shown confirmed ident in_review db))"
| resolve: "reachable_complaints db \<Longrightarrow>
     reachable_complaints (fst (handleStatusChange sess now fault nfault shown confirmed ident resolved db))"
| respond: "reachable_complaints db \<Longrightarrow>
     reachable_complaints
       (fst (handleSubmitResponse sess now fault nfault shown selectedComplaint selectedStatus responseText db))"

section \<open>Vehicle lookup by plate\<close>

text \<open>
  The two queries a plate search can issue, \<^verbatim>\<open>.eq('license_plate', p)\<close> and
  \<^verbatim>\<open>.ilike('license_plate', `%${p}%`)\<close> (the argument below is the pattern with its
  percent signs).  The backend is any function from queries to replies, so that the
  searches are described for whatever the table holds and however the backend fails.
\<close>

datatype vehicle_query = Eq_license_plate string | Ilike_license_plate string

definition search_failed :: "effect list" where
  "search_failed = [ConsoleError ''Error searching vehicle:'',
                    Alert ''Error'' ''Failed to search for vehicle'']"

text \<open>
  \<^verbatim>\<open>searchVehicle\<close> of the issue-fine screen.  The result is the list of queries issued,
  the new value of the \<^verbatim>\<open>vehicle\<close> state and the effects.
\<close>

definition IssueFine_searchVehicle ::
  "strings \<Rightarrow> string option \<Rightarrow> (vehicle_query \<Rightarrow> vehicle list reply) \<Rightarrow> string \<Rightarrow> vehicle option \<Rightarrow>
   vehicle_query list \<times> vehicle option \<times> effect list" where
  "IssueFine_searchVehicle js sess backend licensePlate vehicle =
     (if String_trim js licensePlate = [] \<or> sess = None then ([], vehicle, [])
      else
        (let formattedLicensePlate = String_toUpperCase js (String_trim js licensePlate);
             q1 = Eq_license_plate formattedLicensePlate;
             q2 = Ilike_license_plate (''%'' @ formattedLicensePlate @ ''%'')
         in case backend q1 of
              Failed e \<Rightarrow> ([q1], vehicle, search_failed)
            | Threw msg \<Rightarrow> ([q1], vehicle, search_failed)
            | Returned exactMatch \<Rightarrow>
                (case exactMatch of
                   v # rest \<Rightarrow> ([q1], Some v, [])
                 | [] \<Rightarrow>
                     (case backend q2 of
                        Failed e \<Rightarrow> ([q1, q2], vehicle, search_failed)
                      | Threw msg \<Rightarrow> ([q1, q2], vehicle, search_failed)
                      | Returned partialMatch \<Rightarrow>
                          (case partialMatch of
                             [] \<Rightarrow> ([q1, q2], None,
                                    [Alert ''No Results'' ''No vehicle found with this license plate.''])
                           | v # rest \<Rightarrow>
                               ([q1, q2], Some v,
                                if 1 < length partialMatch
                                then [Alert ''Multiple Matches''
                                        ''Multiple vehicles found. Showing the first match.'']
                                else []))))))"

text \<open>The form of the tow recording screen.\<close>

record tow_form =
  licensePlate :: string
  location :: string
  reason :: string
  towDate :: timestamp
  towNotes :: string
  vehicleMake :: string
  vehicleModel :: string
  vehicleColor :: string
  registeredName :: string
  vehicleFound :: "vehicle option"
  vehicleNotFound :: bool
  issueFineToo :: bool
  fineAmount :: string
  fineDescription :: string

text \<open>
  \<^verbatim>\<open>licensePlate.toLowerCase().match(new RegExp(standardColors.join('|')))\<close>: the
  leftmost position at which one of the colour names starts, and there the first name
  in the order of the list.
\<close>

definition standardColors :: "string list" where
  "standardColors = [''black'', ''white'', ''silver'', ''gray'', ''red'', ''blue'',
                     ''green'', ''yellow'', ''orange'', ''brown'']"

fun colorMatch :: "string \<Rightarrow> string option" where
  "colorMatch [] = None"
| "colorMatch (c # cs) =
     (case find (\<lambda>col. take (length col) (c # cs) = col) standardColors of
        Some col \<Rightarrow> Some col
      | None \<Rightarrow> colorMatch cs)"

definition tow_search_failed :: "effect list" where
  "tow_search_failed = [ConsoleError ''DEBUG: Error searching vehicle:'',
                        Alert ''Error'' ''Failed to search for the vehicle. Please try again.'']"

text \<open>
  What the search does with the final \<^verbatim>\<open>data\<close>: none, one or several rows.
\<close>

definition use_search_result :: "strings \<Rightarrow> vehicle list \<Rightarrow> tow_form \<Rightarrow> tow_form \<times> effect list" where
  "use_search_result js data form =
     (case data of
        [] \<Rightarrow>
          (form\<lparr>vehicleNotFound := True,
                vehicleColor := (case colorMatch (String_toLowerCase js (licensePlate form)) of
                                   Some col \<Rightarrow> col
                                 | None \<Rightarrow> vehicleColor form)\<rparr>, [])
      | [v] \<Rightarrow>
          (form\<lparr>vehicleFound := Some v,
                vehicleMake := (case v_make v of None \<Rightarrow> vehicleMake form
                                | Some m \<Rightarrow> if m = [] then vehicleMake form else m),
                vehicleModel := v_model v,
                vehicleColor := v_color v,
                registeredName := (case v_registered_name v of None \<Rightarrow> registeredName form
                                   | Some n \<Rightarrow> if n = [] then registeredName form else n)\<rparr>, [])
      | v # w # rest \<Rightarrow>
          (form\<lparr>vehicleFound := Some v,
                vehicleMake := (case v_make v of None \<Rightarrow> [] | Some m \<Rightarrow> m),
                vehicleModel := v_model v,
                vehicleColor := v_color v,
                registeredName := (case v_registered_name v of None \<Rightarrow> registeredName form
                                   | Some n \<Rightarrow> if n = [] then registeredName form else n)\<rparr>,
           [Alert ''Multiple Matches''
              (''Found '' @ string_of_nat (length data) @
               '' vehicles with similar license plates. Using the first match.'')]))"

text \<open>
  \<^verbatim>\<open>searchVehicle\<close> of the tow recording screen.  An error of the exact query is thrown
  after the fallback has been skipped; an error of the fallback query is dropped and the
  empty exact result stands.
\<close>

definition RecordTow_searchVehicle ::
  "strings \<Rightarrow> (vehicle_query \<Rightarrow> vehicle list reply) \<Rightarrow> tow_form \<Rightarrow>
   vehicle_query list \<times> tow_form \<times> effect list" where
  "RecordTow_searchVehicle js backend form =
     (if licensePlate form = [] \<or> String_trim js (licensePlate form) = []
      then ([], form, [Alert ''Error'' ''Please enter a license plate number''])
      else
        (let form0 = form\<lparr>vehicleFound := None, vehicleNotFound := False\<rparr>;
             formattedLicensePlate = String_toUpperCase js (String_trim js (licensePlate form));
             q1 = Eq_license_plate formattedLicensePlate;
             q2 = Ilike_license_plate (''%'' @ formattedLicensePlate @ ''%'')
         in case backend q1 of
              Threw msg \<Rightarrow> ([q1], form0, tow_search_failed)
            | Failed e \<Rightarrow>
                ([q1], form0,
                 ConsoleError ''DEBUG: Database error when searching vehicle:'' # tow_search_failed)
            | Returned data \<Rightarrow>
                if data = [] then
                  (case backend q2 of
                     Threw msg \<Rightarrow> ([q1, q2], form0, tow_search_failed)
                   | Failed e \<Rightarrow>
                       (case use_search_result js [] form0 of (form1, es) \<Rightarrow> ([q1, q2], form1, es))
                   | Returned ilikeData \<Rightarrow>
                       (case use_search_result js ilikeData form0 of (form1, es) \<Rightarrow> ([q1, q2], form1, es)))
                else (case use_search_result js data form0 of (form1, es) \<Rightarrow> ([q1], form1, es))))"

text \<open>
  \<^verbatim>\<open>searchVehicle\<close> of the vehicle search screen, which staff and officers use.  The
  screen shows either a vehicle row, with its owner's profile when that could be fetched,
  or, when only a tow record carries the plate, a minimal vehicle made from that record
  (without make, registered name and owner).
\<close>

record searched_vehicle =
  sv_id :: string
  sv_license_plate :: string
  sv_make :: "string option"
  sv_model :: string
  sv_color :: string
  sv_owner_id :: "string option"
  sv_registered_name :: "string option"
  sv_owner :: "owner_profile option"

definition with_owner :: "vehicle \<Rightarrow> owner_profile option \<Rightarrow> searched_vehicle" where
  "with_owner foundVehicle ownerData =
     \<lparr>sv_id = v_id foundVehicle, sv_license_plate = v_license_plate foundVehicle,
      sv_make = v_make foundVehicle, sv_model = v_model foundVehicle, sv_color = v_color foundVehicle,
      sv_owner_id = v_owner_id foundVehicle, sv_registered_name = v_registered_name foundVehicle,
      sv_owner = ownerData\<rparr>"

definition minimal_vehicle :: "tow \<Rightarrow> searched_vehicle" where
  "minimal_vehicle t =
     \<lparr>sv_id = (case t_vehicle_id t of None \<Rightarrow> ''unknown'' | Some i \<Rightarrow> if i = [] then ''unknown'' else i),
      sv_license_plate = t_license_plate t,
      sv_make = None, sv_model = ''Unknown Model'', sv_color = ''gray'',
      sv_owner_id = Some [], sv_registered_name = None, sv_owner = None\<rparr>"

text \<open>
  The state of the screen, and what one search does: the queries it issues on
  \<^verbatim>\<open>vehicles\<close> and on \<^verbatim>\<open>tows\<close>, the new state, the effects, and the vehicle id with
  which it calls \<^verbatim>\<open>fetchVehicleHistory\<close>, if it does (that call is not awaited).
  \<open>plate\<close> is the screen's \<^verbatim>\<open>licensePlate\<close> state.
\<close>

record vehicle_search =
  vs_vehicle :: "searched_vehicle option"
  vs_vehicleNotFound :: bool
  vs_towHistory :: "tow list"
  vs_fineHistory :: "fine list"

record vehicle_search_run =
  run_queries :: "vehicle_query list"
  run_tow_queries :: "vehicle_query list"
  run_state :: vehicle_search
  run_effects :: "effect list"
  run_history :: "string option"

text \<open>
  The screen never looks at the error of a query: it tests \<^verbatim>\<open>!data || data.length === 0\<close>,
  so an answer with an error (\<^verbatim>\<open>data\<close> is \<^verbatim>\<open>null\<close>) counts as an answer without rows.
  \<open>rows_of\<close> gives the rows of an answer in this sense, and nothing when the call threw.
\<close>

definition rows_of :: "'r list reply \<Rightarrow> 'r list option" where
  "rows_of rep = (case rep of Returned rows \<Rightarrow> Some rows | Failed e \<Rightarrow> Some [] | Threw msg \<Rightarrow> None)"

text \<open>The state after the resets at the head of the \<^verbatim>\<open>try\<close> block.\<close>

definition search_reset :: vehicle_search where
  "search_reset = \<lparr>vs_vehicle = None, vs_vehicleNotFound = False, vs_towHistory = [], vs_fineHistory = []\<rparr>"

text \<open>The \<^verbatim>\<open>catch\<close> block, reached when a call throws.\<close>

definition search_threw :: "vehicle_query list \<Rightarrow> vehicle_query list \<Rightarrow> vehicle_search_run" where
  "search_threw qs tqs =
     \<lparr>run_queries = qs, run_tow_queries = tqs,
      run_state = search_reset\<lparr>vs_vehicleNotFound := True\<rparr>,
      run_effects = [ConsoleError ''Error searching vehicle:'',
                     Alert ''Error'' ''Failed to search for the vehicle. Please try again.''],
      run_history = None\<rparr>"

text \<open>
  No vehicle row was found: the same two passes on the \<^verbatim>\<open>tows\<close> table, and the first
  tow record found, if any, stands in for the vehicle.
\<close>

definition search_tows ::
  "(vehicle_query \<Rightarrow> tow list reply) \<Rightarrow> vehicle_query list \<Rightarrow> string \<Rightarrow> vehicle_search_run" where
  "search_tows tow_backend qs formattedLicensePlate =
     (let t1 = Eq_license_plate formattedLicensePlate;
          t2 = Ilike_license_plate (''%'' @ formattedLicensePlate @ ''%'')
      in case rows_of (tow_backend t1) of
           None \<Rightarrow> search_threw qs [t1]
         | Some exactTows \<Rightarrow>
             (case (if exactTows = []
                    then map_option (\<lambda>towIlikeData. ([t1, t2], towIlikeData)) (rows_of (tow_backend t2))
                    else Some ([t1], exactTows)) of
                None \<Rightarrow> search_threw qs [t1, t2]
              | Some (tqs, towData) \<Rightarrow>
                  (case towData of
                     [] \<Rightarrow>
                       \<lparr>run_queries = qs, run_tow_queries = tqs,
                        run_state = search_reset\<lparr>vs_vehicleNotFound := True\<rparr>,
                        run_effects = [], run_history = None\<rparr>
                   | t # rest \<Rightarrow>
                       (case t_vehicle_id t of
                          None \<Rightarrow>
                            \<lparr>run_queries = qs, run_tow_queries = tqs,
                             run_state = search_reset\<lparr>vs_vehicle := Some (minimal_vehicle t),
                                                       vs_towHistory := [t]\<rparr>,
                             run_effects = [], run_history = None\<rparr>
                        | Some i \<Rightarrow>
                            if i = [] then
                              \<lparr>run_queries = qs, run_tow_queries = tqs,
                               run_state = search_reset\<lparr>vs_vehicle := Some (minimal_vehicle t),
                                                         vs_towHistory := [t]\<rparr>,
                               run_effects = [], run_history = None\<rparr>
                            else
                              \<lparr>run_queries = qs, run_tow_queries = tqs,
                               run_state = search_reset\<lparr>vs_vehicle := Some (minimal_vehicle t)\<rparr>,
                               run_effects = [], run_history = Some i\<rparr>))))"

text \<open>
  A vehicle row was found: \<^verbatim>\<open>const foundVehicle = vehicleData[0]\<close>, whatever the number of
  rows, then the owner's profile by \<^verbatim>\<open>.eq('id', foundVehicle.owner_id).single()\<close> when the
  row has an owner.
\<close>

definition show_found ::
  "(string \<Rightarrow> owner_profile reply) \<Rightarrow> vehicle_query list \<Rightarrow> vehicle \<Rightarrow> vehicle_search_run" where
  "show_found owner_backend qs foundVehicle =
     (let plain = \<lparr>run_queries = qs, run_tow_queries = [],
                   run_state = search_reset\<lparr>vs_vehicle := Some (with_owner foundVehicle None)\<rparr>,
                   run_effects = [], run_history = Some (v_id foundVehicle)\<rparr>
      in case v_owner_id foundVehicle of
           None \<Rightarrow> plain
         | Some owner \<Rightarrow>
             if owner = [] then plain
             else
               (case owner_backend owner of
                  Threw msg \<Rightarrow> search_threw qs []
                | Failed e \<Rightarrow> plain
                | Returned ownerData \<Rightarrow>
                    \<lparr>run_queries = qs, run_tow_queries = [],
                     run_state = search_reset\<lparr>vs_vehicle := Some (with_owner foundVehicle (Some ownerData))\<rparr>,
                     run_effects = [], run_history = Some (v_id foundVehicle)\<rparr>))"

definition VehicleSearch_searchVehicle ::
  "strings \<Rightarrow> (vehicle_query \<Rightarrow> vehicle list reply) \<Rightarrow> (vehicle_query \<Rightarrow> tow list reply) \<Rightarrow>
   (string \<Rightarrow> owner_profile reply) \<Rightarrow> string \<Rightarrow> vehicle_search \<Rightarrow> vehicle_search_run" where
  "VehicleSearch_searchVehicle js backend tow_backend owner_backend plate st =
     (if plate = [] \<or> String_trim js plate = []
      then \<lparr>run_queries = [], run_tow_queries = [], run_state = st,
            run_effects = [Alert ''Error'' ''Please enter a license plate number''],
            run_history = None\<rparr>
      else
        (let formattedLicensePlate = String_toUpperCase js (String_trim js plate);
             q1 = Eq_license_plate formattedLicensePlate;
             q2 = Ilike_license_plate (''%'' @ formattedLicensePlate @ ''%'')
         in case rows_of (backend q1) of
              None \<Rightarrow> search_threw [q1] []
            | Some exactData \<Rightarrow>
                (case (if exactData = []
                       then map_option (\<lambda>ilikeData. ([q1, q2], ilikeData)) (rows_of (backend q2))
                       else Some ([q1], exactData)) of
                   None \<Rightarrow> search_threw [q1, q2] []
                 | Some (qs, vehicleData) \<Rightarrow>
                     (case vehicleData of
                        [] \<Rightarrow> search_tows tow_backend qs formattedLicensePlate
                      | foundVehicle # rest \<Rightarrow> show_found owner_backend qs foundVehicle))))"

text \<open>
  A backend for the two queries over a concrete table: equality on the stored plate, and
  for the pattern \<open>%p%\<close> the rows whose plate contains \<open>p\<close>, letter case ignored.
\<close>

fun contains :: "string \<Rightarrow> string \<Rightarrow> bool" where
  "contains [] p = (p = [])"
| "contains (c # cs) p = (take (length p) (c # cs) = p \<or> contains cs p)"

definition table_backend :: "vehicle list \<Rightarrow> vehicle_query \<Rightarrow> vehicle list reply" where
  "table_backend rows q =
     (case q of
        Eq_license_plate p \<Rightarrow> Returned (filter (\<lambda>v. v_license_plate v = p) rows)
      | Ilike_license_plate pat \<Rightarrow>
          Returned (filter (\<lambda>v. contains (toLowerCase (v_license_plate v))
                                        (toLowerCase (butlast (tl pat)))) rows))"

section \<open>Recording a tow\<close>

text \<open>
  \<^verbatim>\<open>handleSubmitTow\<close>.  The replies of the four inserts and the clock readings are
  collected in one record: the vehicle and tow inserts end in \<^verbatim>\<open>.select().single()\<close> and
  return the created row, of which the id is used; \<^verbatim>\<open>parseFloat\<close> gives no value where
  the source gets \<^verbatim>\<open>NaN\<close>.
\<close>

record tow_env =
  vehicle_insert :: "string reply"
  tow_insert :: "string reply"
  fine_insert :: "string reply"
  notification_insert :: "unit reply"
  now_issue :: timestamp
  now_due :: timestamp
  parseFloat :: "string \<Rightarrow> nat option"

definition newVehicleData :: "strings \<Rightarrow> tow_form \<Rightarrow> string \<Rightarrow> vehicle" where
  "newVehicleData js form new_id =
     \<lparr>v_id = new_id,
      v_license_plate = String_toUpperCase js (String_trim js (licensePlate form)),
      v_make = Some (if vehicleMake form = [] then ''Unknown'' else vehicleMake form),
      v_model = (if vehicleModel form = [] then ''Unknown'' else vehicleModel form),
      v_color = (if vehicleColor form = [] then ''unknown'' else vehicleColor form),
      v_owner_id = None,
      v_registered_name = (if registeredName form = [] then None else Some (registeredName form))\<rparr>"

definition towPayload :: "strings \<Rightarrow> tow_form \<Rightarrow> string option \<Rightarrow> string option \<Rightarrow> string \<Rightarrow> tow" where
  "towPayload js form sess vehicleId new_id =
     \<lparr>t_id = new_id,
      t_vehicle_id = vehicleId,
      t_license_plate = String_toUpperCase js (String_trim js (licensePlate form)),
      t_location = String_trim js (location form),
      t_reason = String_trim js (reason form),
      t_tow_date = towDate form,
      t_status = ''active'',
      t_notes = String_trim js (towNotes form),
      t_created_by = sess\<rparr>"

definition fineData ::
  "strings \<Rightarrow> tow_env \<Rightarrow> tow_form \<Rightarrow> string option \<Rightarrow> string \<Rightarrow> string \<Rightarrow> string \<Rightarrow> fine" where
  "fineData js env form sess vehicleId towId new_id =
     new_fine new_id vehicleId (the (parseFloat env (fineAmount form)))
       (String_trim js (fineDescription form))
       (now_issue env) (now_due env + thirty_days) sess (Some towId)"

definition notificationData :: "tow_form \<Rightarrow> string \<Rightarrow> string \<Rightarrow> notification" where
  "notificationData form owner towId =
     \<lparr>n_user_id = owner, n_type = ''tow'', n_title = ''Vehicle Towed'',
      n_message = ''Your vehicle ('' @ licensePlate form @ '') has been towed from '' @ location form,
      n_related_id = towId, n_is_read = False\<rparr>"

definition tow_failed :: "effect list" where
  "tow_failed = [ConsoleError ''Error recording tow:'',
                 Alert ''Error'' ''Failed to record the tow. Please try again.'']"

definition tow_success :: "tow_form \<Rightarrow> effect list" where
  "tow_success form =
     [Alert ''Success''
        (''Tow record created successfully'' @
         (if issueFineToo form then '' with associated fine'' else []))]"

text \<open>The last step: the notification for the owner of a vehicle that was found.\<close>

definition notify_step ::
  "tow_env \<Rightarrow> tow_form \<Rightarrow> string \<Rightarrow> effect list \<Rightarrow> database \<Rightarrow> database \<times> effect list" where
  "notify_step env form towId es db =
     (case vehicleFound form of
        None \<Rightarrow> (db, es @ tow_success form)
      | Some v \<Rightarrow>
          (case v_owner_id v of
             None \<Rightarrow> (db, es @ tow_success form)
           | Some owner \<Rightarrow>
               if owner = [] then (db, es @ tow_success form)
               else
                 (case notification_insert env of
                    Threw msg \<Rightarrow> (db, es @ tow_failed)
                  | Failed e \<Rightarrow>
                      (db, es @ [ConsoleError ''Error creating notification:''] @ tow_success form)
                  | Returned u \<Rightarrow>
                      (db\<lparr>notifications := notifications db @ [notificationData form owner towId]\<rparr>,
                       es @ tow_success form))))"

text \<open>The fine step, taken when a fine is asked for and a vehicle id is known.\<close>

definition fine_step ::
  "strings \<Rightarrow> tow_env \<Rightarrow> tow_form \<Rightarrow> string option \<Rightarrow> string option \<Rightarrow> string \<Rightarrow> effect list \<Rightarrow>
   database \<Rightarrow> database \<times> effect list" where
  "fine_step js env form sess vehicleId towId es db =
     (if issueFineToo form \<and> vehicleId \<noteq> None \<and> vehicleId \<noteq> Some [] then
        (case fine_insert env of
           Threw msg \<Rightarrow> (db, es @ tow_failed)
         | Failed e \<Rightarrow> (db, es @ tow_failed)
         | Returned fid \<Rightarrow>
             notify_step env form towId es
               (db\<lparr>fines := fines db @ [fineData js env form sess (the vehicleId) towId fid]\<rparr>))
      else notify_step env form towId es db)"

text \<open>The tow insert, with the vehicle id the first step ended with.\<close>

definition tow_step ::
  "strings \<Rightarrow> tow_env \<Rightarrow> tow_form \<Rightarrow> string option \<Rightarrow> string option \<Rightarrow> effect list \<Rightarrow> database \<Rightarrow>
   database \<times> effect list" where
  "tow_step js env form sess vehicleId es db =
     (case tow_insert env of
        Threw msg \<Rightarrow> (db, es @ tow_failed)
      | Failed e \<Rightarrow> (db, es @ tow_failed)
      | Returned towId \<Rightarrow>
          fine_step js env form sess vehicleId towId es
            (db\<lparr>tows := tows db @ [towPayload js form sess vehicleId towId]\<rparr>))"

definition handleSubmitTow ::
  "strings \<Rightarrow> tow_env \<Rightarrow> string option \<Rightarrow> tow_form \<Rightarrow> database \<Rightarrow> database \<times> effect list" where
  "handleSubmitTow js env sess form db =
     (if licensePlate form = [] \<or> String_trim js (licensePlate form) = []
      then (db, [Alert ''Error'' ''Please enter a license plate number''])
      else if String_trim js (location form) = []
      then (db, [Alert ''Error'' ''Please enter the tow location''])
      else if String_trim js (reason form) = []
      then (db, [Alert ''Error'' ''Please provide a reason for towing''])
      else if issueFineToo form
              \<and> (String_trim js (fineAmount form) = [] \<or> parseFloat env (fineAmount form) = None)
      then (db, [Alert ''Error'' ''Please enter a valid fine amount''])
      else if issueFineToo form \<and> String_trim js (fineDescription form) = []
      then (db, [Alert ''Error'' ''Please enter a description for the fine''])
      else
        (case vehicleFound form of
           Some v \<Rightarrow> tow_step js env form sess (Some (v_id v)) [] db
         | None \<Rightarrow>
             (case vehicle_insert env of
                Threw msg \<Rightarrow> (db, tow_failed)
              | Failed e \<Rightarrow>
                  tow_step js env form sess None
                    [ConsoleError ''Error creating vehicle:'',
                     Alert ''Warning''
                       ''Could not create vehicle record. Proceeding with tow record only.''] db
              | Returned vid \<Rightarrow>
                  tow_step js env form sess (Some vid) []
                    (db\<lparr>vehicles := vehicles db @ [newVehicleData js form vid]\<rparr>))))"

section \<open>Adding a vehicle\<close>

text \<open>
  \<^verbatim>\<open>validateForm\<close> of the owner's add-vehicle screen: the error texts it sets and its
  result.  \<^verbatim>\<open>handleAddVehicle\<close> returns at once, without any insert, when the result is
  false.
\<close>

record add_vehicle_form =
  av_licensePlate :: string
  av_make :: string
  av_model :: string
  av_selectedColor :: string
  av_registeredName :: string

record add_vehicle_errors =
  err_licensePlate :: string
  err_make :: string
  err_model :: string
  err_color :: string

definition validateForm :: "strings \<Rightarrow> add_vehicle_form \<Rightarrow> add_vehicle_errors \<times> bool" where
  "validateForm js form =
     (\<lparr>err_licensePlate = (if String_trim js (av_licensePlate form) = [] then ''License plate is required'' else []),
       err_make = (if String_trim js (av_make form) = [] then ''Vehicle make is required'' else []),
       err_model = (if String_trim js (av_model form) = [] then ''Vehicle model is required'' else []),
       err_color = (if av_selectedColor form = [] then ''Please select a color'' else [])\<rparr>,
      \<not> (String_trim js (av_licensePlate form) = [] \<or> String_trim js (av_make form) = []
         \<or> String_trim js (av_model form) = [] \<or> av_selectedColor form = []))"

section \<open>Notions used in the statements and examples\<close>

text \<open>Reading a decimal text back, to show that the rendering loses nothing.\<close>

definition digit_value :: "char \<Rightarrow> nat" where
  "digit_value c = (of_char c :: nat) - 48"

definition nat_of_string :: "string \<Rightarrow> nat" where
  "nat_of_string s = foldl (\<lambda>acc c. 10 * acc + digit_value c) 0 s"

text \<open>
  The payment columns of a fine are paired when they are both absent on an unpaid fine
  or both present on a paid one.
\<close>

definition paired :: "fine \<Rightarrow> bool" where
  "paired f \<longleftrightarrow>
     (f_status f = unpaid \<and> f_payment_date f = None \<and> f_transaction_id f = None)
     \<or> (f_status f = paid \<and> f_payment_date f \<noteq> None \<and> f_transaction_id f \<noteq> None)"

text \<open>
  A fine issued at instant 50 and due at instant 100, a database holding it, the details
  screen that has loaded it, and the same screen after its own payment.
\<close>

definition demo_fine :: fine where
  "demo_fine = new_fine ''f1'' ''v1'' 5000 ''Parking'' 50 100 (Some ''officer1'') None"

definition demo_db :: database where
  "demo_db = \<lparr>vehicles = [], tows = [], fines = [demo_fine], complaints = [], notifications = []\<rparr>"

definition demo_screen :: fine_screen where
  "demo_screen =
     \<lparr>fineDetails = Some \<lparr>fv_fine = demo_fine, fv_license_plate = ''ABC123'',
                           fv_model = ''Civic'', fv_color = ''red''\<rparr>,
      paymentModalVisible = False, processingPayment = False\<rparr>"

definition demo_paid_screen :: fine_screen where
  "demo_paid_screen =
     \<lparr>fineDetails = Some \<lparr>fv_fine = demo_fine\<lparr>f_status := paid, f_payment_date := Some 21,
                                                f_transaction_id := Some ''TX-7-19''\<rparr>,
                           fv_license_plate = ''ABC123'', fv_model = ''Civic'', fv_color = ''red''\<rparr>,
      paymentModalVisible = False, processingPayment = False\<rparr>"

definition demo_due_fine :: fine where
  "demo_due_fine = new_fine ''f2'' ''v1'' 5000 ''Parking'' 50 100 (Some ''officer1'') None"

text \<open>
  The resolution columns of a complaint are recorded when a resolved complaint has its
  resolver and resolution date, and a rejected one has a response that is not blank.
\<close>

definition resolution_recorded :: "complaint \<Rightarrow> bool" where
  "resolution_recorded c \<longleftrightarrow>
     (c_status c = resolved \<longrightarrow> c_resolved_at c \<noteq> None \<and> c_resolved_by c \<noteq> None)
     \<and> (c_status c = rejected \<longrightarrow> (\<exists>r. c_response c = Some r \<and> trim r \<noteq> []))"

text \<open>
  A complaint as the owner's form creates it, a database holding it, and a database with
  two owners, their vehicles, a fine and a tow on the second owner's vehicle and a
  complaint of each.
\<close>

definition demo_complaint :: complaint where
  "demo_complaint = new_complaint ''c1'' ''u1'' ''Tow'' ''Wrong car'' None None None 10"

definition demo_complaints_db :: database where
  "demo_complaints_db =
     \<lparr>vehicles = [], tows = [], fines = [], complaints = [demo_complaint], notifications = []\<rparr>"

definition demo_vehicle1 :: vehicle where
  "demo_vehicle1 = \<lparr>v_id = ''v1'', v_license_plate = ''ABC123'', v_make = Some ''Honda'', v_model = ''Civic'',
                    v_color = ''red'', v_owner_id = Some ''u1'', v_registered_name = None\<rparr>"

definition demo_vehicle2 :: vehicle where
  "demo_vehicle2 = \<lparr>v_id = ''v2'', v_license_plate = ''ABC456'', v_make = Some ''Ford'', v_model = ''Focus'',
                    v_color = ''blue'', v_owner_id = Some ''u2'', v_registered_name = None\<rparr>"








text \<open>
  A tow form passes the checks at the head of \<^verbatim>\<open>handleSubmitTow\<close> when plate, location and
  reason are not blank and, if a fine is asked for, its amount parses and its description
  is not blank.
\<close>

definition tow_form_valid :: "strings \<Rightarrow> tow_env \<Rightarrow> tow_form \<Rightarrow> bool" where
  "tow_form_valid js env form \<longleftrightarrow>
     licensePlate form \<noteq> [] \<and> String_trim js (licensePlate form) \<noteq> []
     \<and> String_trim js (location form) \<noteq> [] \<and> String_trim js (reason form) \<noteq> []
     \<and> (issueFineToo form \<longrightarrow>
          String_trim js (fineAmount form) \<noteq> [] \<and> parseFloat env (fineAmount form) \<noteq> None
          \<and> String_trim js (fineDescription form) \<noteq> [])"

text \<open>The effects a user sees are the alerts.\<close>

definition is_alert :: "effect \<Rightarrow> bool" where
  "is_alert e = (case e of Alert title msg \<Rightarrow> True | _ \<Rightarrow> False)"

text \<open>
  A tow form for the plate typed as \<open>abc\<close> between blanks, the same form for a plate
  nobody has registered, for a vehicle that was found, and with a fine asked for; and a
  backend whose inserts all succeed.
\<close>

definition demo_tow_form :: tow_form where
  "demo_tow_form =
     \<lparr>licensePlate = '' abc '', location = ''Main St'', reason = ''Blocking driveway'', towDate = 60,
      towNotes = [], vehicleMake = [], vehicleModel = [], vehicleColor = [], registeredName = [],
      vehicleFound = None, vehicleNotFound = False, issueFineToo = False, fineAmount = [],
      fineDescription = []\<rparr>"

definition demo_unknown_form :: tow_form where
  "demo_unknown_form = demo_tow_form\<lparr>licensePlate := ''xyz999''\<rparr>"

definition demo_found_form :: tow_form where
  "demo_found_form = demo_tow_form\<lparr>licensePlate := ''ABC123'', vehicleFound := Some demo_vehicle1\<rparr>"

definition demo_fined_form :: tow_form where
  "demo_fined_form = demo_found_form\<lparr>issueFineToo := True, fineAmount := ''50'', fineDescription := ''Towed''\<rparr>"

definition demo_env :: tow_env where
  "demo_env = \<lparr>vehicle_insert = Returned ''v9'', tow_insert = Returned ''t1'', fine_insert = Returned ''f5'',
               notification_insert = Returned (), now_issue = 70, now_due = 71,
               parseFloat = (\<lambda>s. if s = ''50'' then Some 5000 else None)\<rparr>"

text \<open>
  The tow form for the unregistered plate with one blank typed into each of the make,
  model and colour fields, and the add-vehicle form with the same make and model.
\<close>

definition demo_blank_form :: tow_form where
  "demo_blank_form = demo_unknown_form\<lparr>vehicleMake := '' '', vehicleModel := '' '', vehicleColor := '' ''\<rparr>"

definition demo_add_form :: add_vehicle_form where
  "demo_add_form = \<lparr>av_licensePlate = ''xyz999'', av_make = '' '', av_model = '' '',
                     av_selectedColor = ''red'', av_registeredName = []\<rparr>"

text \<open>
  The profile of the first owner, the vehicle search screen before a search, and a
  backend whose equality query fails while its pattern query answers.
\<close>

definition demo_profile1 :: owner_profile where
  "demo_profile1 = \<lparr>p_id = ''u1'', p_email = ''u1@example.org'', p_full_name = Some ''First Owner'',
                     p_phone = None\<rparr>"

definition demo_owner_backend :: "string \<Rightarrow> owner_profile reply" where
  "demo_owner_backend i = (if i = ''u1'' then Returned demo_profile1 else Failed NoRowFound)"

definition failing_exact_backend :: "vehicle_query \<Rightarrow> vehicle list reply" where
  "failing_exact_backend q =
     (case q of
        Eq_license_plate p \<Rightarrow> Failed BackendUnreachable
      | Ilike_license_plate pat \<Rightarrow> Returned [demo_vehicle1, demo_vehicle2])"

definition no_tows :: "vehicle_query \<Rightarrow> tow list reply" where
  "no_tows q = Returned []"

section \<open>Properties of the role router and the role lookup\<close>

lemmas case_defs = toLowerCase_def toLowerCase_char_def toUpperCase_def toUpperCase_char_def

text \<open>
  C1 (as amended).  A role that is missing, empty, or whose lower-cased text is none of
  \<open>owner\<close>, \<open>staff\<close>, \<open>officer\<close> is routed to the login path; a role whose
  lower-cased text is one of the three is routed to that role's dashboard, whatever its
  letter case; the destination depends on the lower-cased role text alone.  The splash
  screen does not navigate while the session is loading; once loading has finished it
  navigates to the login path when there is no session or the role is such a role, and
  otherwise to the destination of the role; which of these it does depends only on the
  loading flag, on whether there is a session, and on the role.
\<close>

theorem navigateToDashboard_routes:
  "((\<forall>r. x = Some r \<longrightarrow> toLowerCase r \<notin> {''owner'', ''staff'', ''officer''}) \<longrightarrow>
      navigateToDashboard x = ''/login'')
   \<and> (toLowerCase ro = ''owner'' \<longrightarrow> navigateToDashboard (Some ro) = ''/owner'')
   \<and> (toLowerCase rs = ''staff'' \<longrightarrow> navigateToDashboard (Some rs) = ''/staff'')
   \<and> (toLowerCase rf = ''officer'' \<longrightarrow> navigateToDashboard (Some rf) = ''/officer'')
   \<and> (toLowerCase r = toLowerCase r' \<longrightarrow> navigateToDashboard (Some r) = navigateToDashboard (Some r'))
   \<and> (loading ctx \<longrightarrow> SplashScreen_effect ctx = None)
   \<and> (\<not> loading ctx
        \<and> (session ctx = None
            \<or> (\<forall>r. userRole ctx = Some r \<longrightarrow> toLowerCase r \<notin> {''owner'', ''staff'', ''officer''})) \<longrightarrow>
        SplashScreen_effect ctx = Some ''/login'')
   \<and> (\<not> loading ctx \<and> session ctx \<noteq> None \<longrightarrow>
        SplashScreen_effect ctx = Some (navigateToDashboard (userRole ctx)))
   \<and> (loading ctx = loading ctx' \<and> (session ctx = None \<longleftrightarrow> session ctx' = None)
        \<and> userRole ctx = userRole ctx' \<longrightarrow>
        SplashScreen_effect ctx = SplashScreen_effect ctx')"
proof -
  have a: "(\<forall>r. y = Some r \<longrightarrow> toLowerCase r \<notin> {''owner'', ''staff'', ''officer''}) \<Longrightarrow>
      navigateToDashboard y = ''/login''" for y
    by (cases y) (simp_all add: navigateToDashboard_def Let_def)
  have b: "toLowerCase r = l \<Longrightarrow> l \<noteq> [] \<Longrightarrow> r \<noteq> []" for r l
    by (auto simp: toLowerCase_def)
  have o: "toLowerCase ro = ''owner'' \<longrightarrow> navigateToDashboard (Some ro) = ''/owner''"
    using b[of ro "''owner''"] by (simp add: navigateToDashboard_def Let_def)
  have s: "toLowerCase rs = ''staff'' \<longrightarrow> navigateToDashboard (Some rs) = ''/staff''"
    using b[of rs "''staff''"] by (simp add: navigateToDashboard_def Let_def)
  have f: "toLowerCase rf = ''officer'' \<longrightarrow> navigateToDashboard (Some rf) = ''/officer''"
    using b[of rf "''officer''"] by (simp add: navigateToDashboard_def Let_def)
  have e: "toLowerCase r = toLowerCase r' \<longrightarrow> navigateToDashboard (Some r) = navigateToDashboard (Some r')"
  proof
    assume l: "toLowerCase r = toLowerCase r'"
    then have "length r = length r'" unfolding toLowerCase_def by (rule map_eq_imp_length_eq)
    then have "(r = []) = (r' = [])" by auto
    with l show "navigateToDashboard (Some r) = navigateToDashboard (Some r')"
      by (simp add: navigateToDashboard_def Let_def)
  qed
  have l: "loading ctx \<longrightarrow> SplashScreen_effect ctx = None"
    by (simp add: SplashScreen_effect_def)
  have sp: "\<not> loading ctx
        \<and> (session ctx = None
            \<or> (\<forall>r. userRole ctx = Some r \<longrightarrow> toLowerCase r \<notin> {''owner'', ''staff'', ''officer''})) \<longrightarrow>
        SplashScreen_effect ctx = Some ''/login''"
    using a[of "userRole ctx"] by (auto simp: SplashScreen_effect_def)
  have d: "\<not> loading ctx \<and> session ctx \<noteq> None \<longrightarrow>
        SplashScreen_effect ctx = Some (navigateToDashboard (userRole ctx))"
    by (simp add: SplashScreen_effect_def)
  have i: "loading ctx = loading ctx' \<and> (session ctx = None \<longleftrightarrow> session ctx' = None)
        \<and> userRole ctx = userRole ctx' \<longrightarrow>
        SplashScreen_effect ctx = SplashScreen_effect ctx'"
    by (simp add: SplashScreen_effect_def)
  have a': "(\<forall>r. x = Some r \<longrightarrow> toLowerCase r \<notin> {''owner'', ''staff'', ''officer''}) \<longrightarrow>
      navigateToDashboard x = ''/login''"
    using a[of x] by blast
  show ?thesis
    by (intro conjI) (rule a' o s f e l sp d i)+
qed

text \<open>
  The routes at \<open>admin\<close>, \<open>Owner\<close>, \<open>STAFF\<close> and \<open>officer\<close>; and the splash screen
  while loading, without a session, for a signed-in user whose role is \<open>admin\<close>, and
  for two signed-in users whose role is \<open>Owner\<close>.
\<close>

theorem navigateToDashboard_routes_witness:
  "navigateToDashboard (Some ''admin'') = ''/login''
   \<and> navigateToDashboard (Some ''Owner'') = ''/owner''
   \<and> navigateToDashboard (Some ''STAFF'') = ''/staff''
   \<and> navigateToDashboard (Some ''officer'') = ''/officer''
   \<and> navigateToDashboard (Some ''Owner'') = navigateToDashboard (Some ''owner'')
   \<and> SplashScreen_effect \<lparr>session = Some ''u1'', loading = True, userRole = Some ''Owner''\<rparr> = None
   \<and> SplashScreen_effect \<lparr>session = Some ''u1'', loading = False, userRole = Some ''admin''\<rparr> = Some ''/login''
   \<and> SplashScreen_effect \<lparr>session = None, loading = False, userRole = Some ''Owner''\<rparr> = Some ''/login''
   \<and> SplashScreen_effect \<lparr>session = Some ''u1'', loading = False, userRole = Some ''Owner''\<rparr> = Some ''/owner''
   \<and> SplashScreen_effect \<lparr>session = Some ''u1'', loading = False, userRole = Some ''Owner''\<rparr> =
       SplashScreen_effect \<lparr>session = Some ''u2'', loading = False, userRole = Some ''Owner''\<rparr>"
proof -
  let ?A = "\<lparr>session = Some ''u1'', loading = False, userRole = Some ''admin''\<rparr>"
  let ?L = "\<lparr>session = Some ''u1'', loading = True, userRole = Some ''Owner''\<rparr>"
  let ?N = "\<lparr>session = None, loading = False, userRole = Some ''Owner''\<rparr>"
  let ?O = "\<lparr>session = Some ''u1'', loading = False, userRole = Some ''Owner''\<rparr>"
  let ?P = "\<lparr>session = Some ''u2'', loading = False, userRole = Some ''Owner''\<rparr>"
  have h1: "\<forall>r. Some ''admin'' = Some r \<longrightarrow> toLowerCase r \<notin> {''owner'', ''staff'', ''officer''}"
    by (simp add: case_defs)
  have h2: "toLowerCase ''Owner'' = ''owner''" by (simp add: case_defs)
  have h3: "toLowerCase ''STAFF'' = ''staff''" by (simp add: case_defs)
  have h4: "toLowerCase ''officer'' = ''officer''" by (simp add: case_defs)
  have h5: "toLowerCase ''Owner'' = toLowerCase ''owner''" by (simp add: case_defs)
  have h6: "\<not> loading ?A \<and> (session ?A = None
              \<or> (\<forall>r. userRole ?A = Some r \<longrightarrow> toLowerCase r \<notin> {''owner'', ''staff'', ''officer''}))"
    by (simp add: case_defs)
  have h7: "\<not> loading ?N \<and> (session ?N = None
              \<or> (\<forall>r. userRole ?N = Some r \<longrightarrow> toLowerCase r \<notin> {''owner'', ''staff'', ''officer''}))"
    by simp
  have h8: "\<not> loading ?O \<and> session ?O \<noteq> None" by simp
  have h9: "loading ?O = loading ?P \<and> (session ?O = None \<longleftrightarrow> session ?P = None) \<and> userRole ?O = userRole ?P"
    by simp
  note t = navigateToDashboard_routes[where x = "Some ''admin''" and ro = "''Owner''" and rs = "''STAFF''"
             and rf = "''officer''" and r = "''Owner''" and r' = "''owner''"]
  from t[where ctx = ?A and ctx' = ?A] h1 have c1: "navigateToDashboard (Some ''admin'') = ''/login''"
    by blast
  from t[where ctx = ?A and ctx' = ?A] h2 have c2: "navigateToDashboard (Some ''Owner'') = ''/owner''"
    by blast
  from t[where ctx = ?A and ctx' = ?A] h3 have c3: "navigateToDashboard (Some ''STAFF'') = ''/staff''"
    by blast
  from t[where ctx = ?A and ctx' = ?A] h4 have c4: "navigateToDashboard (Some ''officer'') = ''/officer''"
    by blast
  from t[where ctx = ?A and ctx' = ?A] h5
  have c5: "navigateToDashboard (Some ''Owner'') = navigateToDashboard (Some ''owner'')"
    by blast
  have "loading ?L" by simp
  with t[where ctx = ?L and ctx' = ?L] have c6: "SplashScreen_effect ?L = None" by blast
  from t[where ctx = ?A and ctx' = ?A] h6 have c7: "SplashScreen_effect ?A = Some ''/login''" by blast
  from t[where ctx = ?N and ctx' = ?N] h7 have c8: "SplashScreen_effect ?N = Some ''/login''" by blast
  from t[where ctx = ?O and ctx' = ?P] h8
  have "SplashScreen_effect ?O = Some (navigateToDashboard (userRole ?O))" by blast
  with c2 have c9: "SplashScreen_effect ?O = Some ''/owner''" by simp
  from t[where ctx = ?O and ctx' = ?P] h9 have c10: "SplashScreen_effect ?O = SplashScreen_effect ?P"
    by blast
  show ?thesis
    by (intro conjI) (rule c1 c2 c3 c4 c5 c6 c7 c8 c9 c10)+
qed

text \<open>
  C1 as stated fails: the role text \<open>OWNER\<close> is not one of the three lower-case values,
  and it is routed to the owner dashboard.
\<close>

theorem navigateToDashboard_upper_case_role:
  "''OWNER'' \<notin> {''owner'', ''staff'', ''officer''} \<and> navigateToDashboard (Some ''OWNER'') = ''/owner''"
  by (simp add: navigateToDashboard_def Let_def case_defs)

text \<open>
  C4 (as amended).  \<^verbatim>\<open>fetchUserRole\<close> stores no role when the profile query answers with
  an error (a missing row is such an error), when it throws, and when the row's role is
  \<^verbatim>\<open>null\<close> or empty.  Any other role text is stored as it is, and one that is not
  recognized is then routed to the login path, as is the outcome of a failure.
  \<^verbatim>\<open>handleLogin\<close> answers an error of its own profile query with a Profile Error alert and
  a missing or unknown role with a Role Error alert, and navigates in neither case.
\<close>

theorem fetchUserRole_outcomes:
  "fetchUserRole (Failed e) = None
   \<and> fetchUserRole (Threw msg) = None
   \<and> fetchUserRole (Returned \<lparr>role = None\<rparr>) = None
   \<and> fetchUserRole (Returned \<lparr>role = Some []\<rparr>) = None
   \<and> (r \<noteq> [] \<longrightarrow> fetchUserRole (Returned \<lparr>role = Some r\<rparr>) = Some r)
   \<and> (toLowerCase r \<notin> {''owner'', ''staff'', ''officer''} \<longrightarrow>
        navigateToDashboard (fetchUserRole (Returned \<lparr>role = Some r\<rparr>)) = ''/login'')
   \<and> navigateToDashboard (fetchUserRole (Failed e)) = ''/login''
   \<and> handleLogin True (Inr (Some uid)) (Failed e) =
        [ConsoleError ''Error fetching profile:'', Alert ''Profile Error'' ''Could not fetch user profile'']
   \<and> handleLogin True (Inr (Some uid)) (Returned \<lparr>role = None\<rparr>) =
        [Alert ''Role Error'' ''No role assigned to user'']
   \<and> (r \<noteq> [] \<and> toLowerCase r \<notin> {''owner'', ''staff'', ''officer''} \<longrightarrow>
        handleLogin True (Inr (Some uid)) (Returned \<lparr>role = Some r\<rparr>) =
          [Alert ''Role Error'' (''Unknown role: '' @ r)])"
  by (simp add: fetchUserRole_def navigateToDashboard_def handleLogin_def Let_def)

text \<open>The outcomes for a profile whose role is \<open>admin\<close>.\<close>

theorem fetchUserRole_outcomes_witness:
  "fetchUserRole (Returned \<lparr>role = Some ''admin''\<rparr>) = Some ''admin''
   \<and> navigateToDashboard (fetchUserRole (Returned \<lparr>role = Some ''admin''\<rparr>)) = ''/login''
   \<and> handleLogin True (Inr (Some ''u1'')) (Returned \<lparr>role = Some ''admin''\<rparr>) =
          [Alert ''Role Error'' (''Unknown role: '' @ ''admin'')]"
proof -
  have h1: "''admin'' \<noteq> []" by simp
  have h2: "toLowerCase ''admin'' \<notin> {''owner'', ''staff'', ''officer''}" by (simp add: case_defs)
  from fetchUserRole_outcomes[of BackendUnreachable "''x''" "''admin''" "''u1''"] h1 h2
  show ?thesis by blast
qed

text \<open>
  C4 as stated fails: an unreachable backend leaves exactly the stored value that a
  profile without a role leaves, and an unrecognized role is not stored as no role.
\<close>

theorem fetchUserRole_folds_failure:
  "fetchUserRole (Failed BackendUnreachable) = fetchUserRole (Returned \<lparr>role = None\<rparr>)
   \<and> fetchUserRole (Returned \<lparr>role = Some ''admin''\<rparr>) \<noteq> None"
  by (simp add: fetchUserRole_def)

section \<open>Properties of fines\<close>

subsection \<open>The transaction identifier determines the draw and the clock reading\<close>

declare string_of_nat.simps [simp del]

lemma digit_char_in: "digit_char d \<in> set ''0123456789''"
  unfolding digit_char_def by (rule nth_mem) simp

lemma string_of_nat_digits: "set (string_of_nat n) \<subseteq> set ''0123456789''"
proof (induction n rule: string_of_nat.induct)
  case (1 n)
  show ?case
  proof (cases "n < 10")
    case True
    then show ?thesis using digit_char_in[of n] by (subst string_of_nat.simps) simp
  next
    case False
    then show ?thesis using 1 digit_char_in[of "n mod 10"]
      by (subst string_of_nat.simps) simp
  qed
qed

lemma digit_value_digit_char: "d < 10 \<Longrightarrow> digit_value (digit_char d) = d"
proof -
  assume "d < 10"
  then have "d = 0 \<or> d = 1 \<or> d = 2 \<or> d = 3 \<or> d = 4 \<or> d = 5 \<or> d = 6 \<or> d = 7 \<or> d = 8 \<or> d = 9"
    by arith
  then show ?thesis
    by (elim disjE) (simp_all add: digit_value_def digit_char_def)
qed

lemma nat_of_string_of_nat: "nat_of_string (string_of_nat n) = n"
proof (induction n rule: string_of_nat.induct)
  case (1 n)
  show ?case
  proof (cases "n < 10")
    case True
    then show ?thesis
      by (subst string_of_nat.simps) (simp add: nat_of_string_def digit_value_digit_char)
  next
    case False
    with 1 have "nat_of_string (string_of_nat (n div 10)) = n div 10" by simp
    with False show ?thesis
      by (subst string_of_nat.simps) (simp add: nat_of_string_def digit_value_digit_char)
  qed
qed

lemma string_of_nat_inj: "string_of_nat m = string_of_nat n \<Longrightarrow> m = n"
proof -
  assume "string_of_nat m = string_of_nat n"
  then have "nat_of_string (string_of_nat m) = nat_of_string (string_of_nat n)" by (rule arg_cong)
  then show "m = n" by (simp only: nat_of_string_of_nat)
qed

lemma dash_not_digit: "CHR ''-'' \<notin> set (string_of_nat n)"
proof
  assume "CHR ''-'' \<in> set (string_of_nat n)"
  with string_of_nat_digits[of n] have "CHR ''-'' \<in> set ''0123456789''" by (rule subsetD)
  then show False by simp
qed

lemma split_at_dash:
  assumes "a @ CHR ''-'' # b = a' @ CHR ''-'' # b'" "CHR ''-'' \<notin> set a" "CHR ''-'' \<notin> set a'"
  shows "a = a' \<and> b = b'"
proof -
  have tw: "CHR ''-'' \<notin> set xs \<Longrightarrow> takeWhile (\<lambda>c. c \<noteq> CHR ''-'') (xs @ CHR ''-'' # ys) = xs" for xs ys
    by (induction xs) auto
  have "takeWhile (\<lambda>c. c \<noteq> CHR ''-'') (a @ CHR ''-'' # b) = a"
    using assms(2) by (rule tw)
  moreover have "takeWhile (\<lambda>c. c \<noteq> CHR ''-'') (a' @ CHR ''-'' # b') = a'"
    using assms(3) by (rule tw)
  ultimately have "a = a'" using assms(1) by simp
  with assms(1) show ?thesis by simp
qed

lemma mockTransactionId_inj:
  assumes "mockTransactionId rnd now = mockTransactionId rnd' now'"
  shows "rnd = rnd' \<and> now = now'"
proof -
  from assms have "string_of_nat rnd @ CHR ''-'' # string_of_nat now =
                   string_of_nat rnd' @ CHR ''-'' # string_of_nat now'"
    by (simp add: mockTransactionId_def)
  then have "string_of_nat rnd = string_of_nat rnd' \<and> string_of_nat now = string_of_nat now'"
    by (rule split_at_dash) (rule dash_not_digit)+
  then show ?thesis by (simp add: string_of_nat_inj)
qed

subsection \<open>Payment columns\<close>

lemma paired_new_fine: "paired (new_fine new_id vid amount descr issued due creator towid)"
  by (simp add: paired_def new_fine_def)

lemma paired_paid:
  "paired (f\<lparr>f_status := paid, f_payment_date := Some now, f_transaction_id := Some tx\<rparr>)"
  by (simp add: paired_def)

lemma update_fines_paid_Nil: "update_fines_paid ident vid now tx [] = []"
  by (simp add: update_fines_paid_def)

lemma update_fines_paid_Cons:
  "update_fines_paid ident vid now tx (g # gs) =
     (if f_id g = ident \<and> f_vehicle_id g = vid
      then g\<lparr>f_status := paid, f_payment_date := Some now, f_transaction_id := Some tx\<rparr>
      else g) # update_fines_paid ident vid now tx gs"
  by (simp add: update_fines_paid_def)

lemma paired_update: "\<forall>f \<in> set fs. paired f \<Longrightarrow> \<forall>f \<in> set (update_fines_paid ident vid now tx fs). paired f"
  by (induction fs) (simp_all add: update_fines_paid_Nil update_fines_paid_Cons paired_paid)

lemma reachable_fines_paired: "reachable_fines fs \<Longrightarrow> \<forall>f \<in> set fs. paired f"
proof (induction rule: reachable_fines.induct)
  case no_fines
  then show ?case by simp
next
  case (issued fs new_id vid amount descr issued due creator towid)
  then show ?case by (simp add: paired_new_fine)
next
  case (payment fs ident vid now_db rnd now_id)
  from payment.IH show ?case by (rule paired_update)
qed

lemma update_fines_paid_sets:
  "f \<in> set (update_fines_paid ident vid now tx fs) \<Longrightarrow> f_id f = ident \<Longrightarrow> f_vehicle_id f = vid \<Longrightarrow>
   f_status f = paid \<and> f_payment_date f = Some now \<and> f_transaction_id f = Some tx"
proof (induction fs)
  case Nil
  then show ?case by (simp add: update_fines_paid_Nil)
next
  case (Cons g gs)
  show ?case
  proof (cases "f \<in> set (update_fines_paid ident vid now tx gs)")
    case True
    with Cons show ?thesis by simp
  next
    case False
    with Cons.prems(1) have fg: "f = (if f_id g = ident \<and> f_vehicle_id g = vid
              then g\<lparr>f_status := paid, f_payment_date := Some now, f_transaction_id := Some tx\<rparr>
              else g)"
      by (simp add: update_fines_paid_Cons)
    show ?thesis
    proof (cases "f_id g = ident \<and> f_vehicle_id g = vid")
      case True
      with fg show ?thesis by simp
    next
      case False
      with fg have "f = g" by simp
      with False Cons.prems(2,3) show ?thesis by simp
    qed
  qed
qed

lemma processPayment_db:
  "fineDetails scr = Some fv \<Longrightarrow> sess \<noteq> None \<Longrightarrow>
   fines (snd (fst (processPayment sess rnd now_id now_db now_local None (scr, db)))) =
     update_fines_paid (f_id (fv_fine fv)) (f_vehicle_id (fv_fine fv)) now_db (mockTransactionId rnd now_id) (fines db)"
  by (cases sess) (simp_all add: processPayment_def Let_def)

text \<open>
  C5 (as amended).  In every fine table that the two inserts and the payment update can produce, each
  fine is unpaid with neither a payment date nor a transaction identifier, or paid with
  both.  A successful \<^verbatim>\<open>processPayment\<close> is the single update \<open>update_fines_paid\<close>, which
  gives every row it matches the status \<open>paid\<close>, the payment date and the identifier
  together; and two identifiers are equal only if they were generated from the same
  random draw at the same clock reading.
\<close>

theorem payment_fields_paired:
  "(reachable_fines fs \<longrightarrow>
      (\<forall>f \<in> set fs.
         (f_status f = unpaid \<and> f_payment_date f = None \<and> f_transaction_id f = None)
         \<or> (f_status f = paid \<and> f_payment_date f \<noteq> None \<and> f_transaction_id f \<noteq> None)))
   \<and> (fineDetails scr = Some fv \<and> sess \<noteq> None \<longrightarrow>
        fines (snd (fst (processPayment sess rnd now_id now_db now_local None (scr, db)))) =
          update_fines_paid (f_id (fv_fine fv)) (f_vehicle_id (fv_fine fv)) now_db
            (mockTransactionId rnd now_id) (fines db))
   \<and> (\<forall>f \<in> set (update_fines_paid ident vid now tx gs).
        f_id f = ident \<and> f_vehicle_id f = vid \<longrightarrow>
        f_status f = paid \<and> f_payment_date f = Some now \<and> f_transaction_id f = Some tx)
   \<and> (mockTransactionId rnd now_id = mockTransactionId rnd' now_id' \<longrightarrow> rnd = rnd' \<and> now_id = now_id')"
proof (intro conjI impI ballI)
  fix f assume "reachable_fines fs" "f \<in> set fs"
  then have "paired f" using reachable_fines_paired by blast
  then show "(f_status f = unpaid \<and> f_payment_date f = None \<and> f_transaction_id f = None)
         \<or> (f_status f = paid \<and> f_payment_date f \<noteq> None \<and> f_transaction_id f \<noteq> None)"
    by (simp only: paired_def)
next
  assume "fineDetails scr = Some fv \<and> sess \<noteq> None"
  then show "fines (snd (fst (processPayment sess rnd now_id now_db now_local None (scr, db)))) =
          update_fines_paid (f_id (fv_fine fv)) (f_vehicle_id (fv_fine fv)) now_db
            (mockTransactionId rnd now_id) (fines db)"
    by (simp add: processPayment_db)
next
  fix f assume f: "f \<in> set (update_fines_paid ident vid now tx gs)" "f_id f = ident \<and> f_vehicle_id f = vid"
  from update_fines_paid_sets[OF f(1)] f(2)
  show "f_status f = paid" "f_payment_date f = Some now" "f_transaction_id f = Some tx" by simp_all
next
  assume e: "mockTransactionId rnd now_id = mockTransactionId rnd' now_id'"
  from mockTransactionId_inj[OF e] show "rnd = rnd'" "now_id = now_id'" by simp_all
qed

text \<open>
  The table after the demonstration fine has been issued and paid, and the payment made
  from the screen that has loaded it.
\<close>

theorem payment_fields_paired_witness:
  "reachable_fines (update_fines_paid ''f1'' ''v1'' 20 (mockTransactionId 7 19) [demo_fine])
   \<and> hd (update_fines_paid ''f1'' ''v1'' 20 (mockTransactionId 7 19) [demo_fine]) =
        demo_fine\<lparr>f_status := paid, f_payment_date := Some 20, f_transaction_id := Some (mockTransactionId 7 19)\<rparr>
   \<and> f_status (hd (update_fines_paid ''f1'' ''v1'' 20 (mockTransactionId 7 19) [demo_fine])) = paid
   \<and> f_payment_date (hd (update_fines_paid ''f1'' ''v1'' 20 (mockTransactionId 7 19) [demo_fine])) \<noteq> None
   \<and> f_transaction_id (hd (update_fines_paid ''f1'' ''v1'' 20 (mockTransactionId 7 19) [demo_fine])) \<noteq> None
   \<and> fines (snd (fst (processPayment (Some ''u1'') 7 19 20 21 None (demo_screen, demo_db)))) =
          update_fines_paid (f_id demo_fine) (f_vehicle_id demo_fine) 20 (mockTransactionId 7 19) (fines demo_db)"
proof -
  let ?F = "update_fines_paid ''f1'' ''v1'' 20 (mockTransactionId 7 19) [demo_fine]"
  have "reachable_fines ([] @ [demo_fine])"
    unfolding demo_fine_def by (intro reachable_fines.intros)
  then have "reachable_fines [demo_fine]" by simp
  then have r: "reachable_fines ?F" by (rule reachable_fines.payment)
  have e: "?F = [demo_fine\<lparr>f_status := paid, f_payment_date := Some 20,
                             f_transaction_id := Some (mockTransactionId 7 19)\<rparr>]"
    by (simp add: update_fines_paid_Cons update_fines_paid_Nil demo_fine_def new_fine_def)
  then have m: "hd ?F \<in> set ?F" by simp
  have st: "f_status (hd ?F) = paid" by (simp add: e)
  have h: "fineDetails demo_screen = Some \<lparr>fv_fine = demo_fine, fv_license_plate = ''ABC123'',
                           fv_model = ''Civic'', fv_color = ''red''\<rparr> \<and> Some ''u1'' \<noteq> None"
    by (simp add: demo_screen_def)
  note t = payment_fields_paired[of ?F demo_screen
             "\<lparr>fv_fine = demo_fine, fv_license_plate = ''ABC123'', fv_model = ''Civic'', fv_color = ''red''\<rparr>"
             "Some ''u1''" 7 19 20 21 demo_db]
  from t r m have "(f_status (hd ?F) = unpaid \<and> f_payment_date (hd ?F) = None \<and> f_transaction_id (hd ?F) = None)
         \<or> (f_status (hd ?F) = paid \<and> f_payment_date (hd ?F) \<noteq> None \<and> f_transaction_id (hd ?F) \<noteq> None)"
    by blast
  with st have p: "f_payment_date (hd ?F) \<noteq> None \<and> f_transaction_id (hd ?F) \<noteq> None" by simp
  from t h have q: "fines (snd (fst (processPayment (Some ''u1'') 7 19 20 21 None (demo_screen, demo_db)))) =
          update_fines_paid (f_id demo_fine) (f_vehicle_id demo_fine) 20 (mockTransactionId 7 19) (fines demo_db)"
    by simp
  from e have e': "hd ?F = demo_fine\<lparr>f_status := paid, f_payment_date := Some 20,
                             f_transaction_id := Some (mockTransactionId 7 19)\<rparr>" by simp
  from r e' st p q show ?thesis by (intro conjI) simp_all
qed

text \<open>
  C5 as stated fails: the identifier is generated, and nothing makes it unique.  Two
  fines are issued and each is paid by a call that draws 7 at clock reading 19; both
  rows then carry the identifier \<open>TX-7-19\<close>.
\<close>

theorem same_draw_same_identifier:
  "reachable_fines
     (update_fines_paid ''f2'' ''v1'' 20 (mockTransactionId 7 19)
        (update_fines_paid ''f1'' ''v1'' 20 (mockTransactionId 7 19) [demo_fine, demo_due_fine]))
   \<and> map f_id
       (update_fines_paid ''f2'' ''v1'' 20 (mockTransactionId 7 19)
          (update_fines_paid ''f1'' ''v1'' 20 (mockTransactionId 7 19) [demo_fine, demo_due_fine])) =
       [''f1'', ''f2'']
   \<and> map f_transaction_id
       (update_fines_paid ''f2'' ''v1'' 20 (mockTransactionId 7 19)
          (update_fines_paid ''f1'' ''v1'' 20 (mockTransactionId 7 19) [demo_fine, demo_due_fine])) =
       [Some ''TX-7-19'', Some ''TX-7-19'']"
proof -
  have "reachable_fines (([] @ [demo_fine]) @ [demo_due_fine])"
    unfolding demo_fine_def demo_due_fine_def by (intro reachable_fines.intros)
  then have "reachable_fines [demo_fine, demo_due_fine]" by simp
  then have "reachable_fines (update_fines_paid ''f1'' ''v1'' 20 (mockTransactionId 7 19) [demo_fine, demo_due_fine])"
    by (rule reachable_fines.payment)
  then have r: "reachable_fines
     (update_fines_paid ''f2'' ''v1'' 20 (mockTransactionId 7 19)
        (update_fines_paid ''f1'' ''v1'' 20 (mockTransactionId 7 19) [demo_fine, demo_due_fine]))"
    by (rule reachable_fines.payment)
  have tx: "mockTransactionId 7 19 = ''TX-7-19''"
    by (simp add: mockTransactionId_def string_of_nat.simps digit_char_def)
  have i: "map f_id
       (update_fines_paid ''f2'' ''v1'' 20 (mockTransactionId 7 19)
          (update_fines_paid ''f1'' ''v1'' 20 (mockTransactionId 7 19) [demo_fine, demo_due_fine])) =
       [''f1'', ''f2'']"
    by (simp add: update_fines_paid_Cons update_fines_paid_Nil demo_fine_def demo_due_fine_def new_fine_def)
  have t: "map f_transaction_id
       (update_fines_paid ''f2'' ''v1'' 20 (mockTransactionId 7 19)
          (update_fines_paid ''f1'' ''v1'' 20 (mockTransactionId 7 19) [demo_fine, demo_due_fine])) =
       [Some ''TX-7-19'', Some ''TX-7-19'']"
    unfolding tx
    by (simp add: update_fines_paid_Cons update_fines_paid_Nil demo_fine_def demo_due_fine_def new_fine_def)
  from r i t show ?thesis by (intro conjI)
qed

subsection \<open>Paying twice\<close>

lemma paid_copy_step:
  "map_option (f_status \<circ> fv_fine) (fineDetails scr) = Some paid \<Longrightarrow> \<not> paymentModalVisible scr \<Longrightarrow>
   fine_screen_step sess ev (scr, db) = (scr, db)"
  by (cases ev; cases "fineDetails scr") (simp_all add: fine_screen_step_def)

lemma paid_copy_run:
  "map_option (f_status \<circ> fv_fine) (fineDetails scr) = Some paid \<Longrightarrow> \<not> paymentModalVisible scr \<Longrightarrow>
   fine_screen_run sess evs (scr, db) = (scr, db)"
  by (induction evs) (simp_all add: paid_copy_step)

lemma processPayment_marks_paid:
  "fineDetails scr = Some fv \<Longrightarrow> sess \<noteq> None \<Longrightarrow>
   map_option (f_status \<circ> fv_fine)
     (fineDetails (fst (fst (processPayment sess rnd now_id now_db now_local None (scr, db))))) = Some paid
   \<and> \<not> paymentModalVisible (fst (fst (processPayment sess rnd now_id now_db now_local None (scr, db))))"
  by (cases sess) (simp_all add: processPayment_def Let_def)

text \<open>
  C6 (as amended).  On a screen whose loaded copy of the fine has status \<open>paid\<close>,
  \<^verbatim>\<open>handlePayFine\<close> answers with the Already Paid alert and leaves the screen as it is;
  with the payment dialog closed, no sequence of presses changes the screen or the
  database; and a successful \<^verbatim>\<open>processPayment\<close> leaves the screen in such a state, so
  whatever is pressed afterwards on that screen writes nothing more.
\<close>

theorem paid_copy_never_writes:
  "(map_option (f_status \<circ> fv_fine) (fineDetails scr) = Some paid \<longrightarrow>
      handlePayFine scr = (scr, [Alert ''Already Paid'' ''This fine has already been paid.'']))
   \<and> (map_option (f_status \<circ> fv_fine) (fineDetails scr) = Some paid \<and> \<not> paymentModalVisible scr \<longrightarrow>
        fine_screen_run sess evs (scr, db) = (scr, db))
   \<and> (fineDetails scr' = Some fv \<and> sess \<noteq> None \<longrightarrow>
        fine_screen_run sess evs (fst (processPayment sess rnd now_id now_db now_local None (scr', db))) =
          fst (processPayment sess rnd now_id now_db now_local None (scr', db)))"
proof (intro conjI impI)
  assume "map_option (f_status \<circ> fv_fine) (fineDetails scr) = Some paid"
  then show "handlePayFine scr = (scr, [Alert ''Already Paid'' ''This fine has already been paid.''])"
    by (simp add: handlePayFine_def)
next
  assume "map_option (f_status \<circ> fv_fine) (fineDetails scr) = Some paid \<and> \<not> paymentModalVisible scr"
  then show "fine_screen_run sess evs (scr, db) = (scr, db)"
    by (simp add: paid_copy_run)
next
  assume a: "fineDetails scr' = Some fv \<and> sess \<noteq> None"
  obtain s1 d1 where p: "fst (processPayment sess rnd now_id now_db now_local None (scr', db)) = (s1, d1)"
    by (cases "fst (processPayment sess rnd now_id now_db now_local None (scr', db))")
  from a processPayment_marks_paid[of scr' fv sess rnd now_id now_db now_local db] p
  have "map_option (f_status \<circ> fv_fine) (fineDetails s1) = Some paid \<and> \<not> paymentModalVisible s1"
    by simp
  then have "fine_screen_run sess evs (s1, d1) = (s1, d1)" by (simp add: paid_copy_run)
  with p show "fine_screen_run sess evs (fst (processPayment sess rnd now_id now_db now_local None (scr', db))) =
          fst (processPayment sess rnd now_id now_db now_local None (scr', db))" by simp
qed

text \<open>
  Pay Now and Confirm pressed on a screen that shows a paid fine, and pressed again after
  a payment made from the screen itself.
\<close>

theorem paid_copy_never_writes_witness:
  "handlePayFine demo_paid_screen = (demo_paid_screen, [Alert ''Already Paid'' ''This fine has already been paid.''])
   \<and> fine_screen_run (Some ''u1'') [PressPayNow, PressConfirm 8 30 31 32 None] (demo_paid_screen, demo_db)
       = (demo_paid_screen, demo_db)
   \<and> fine_screen_run (Some ''u1'') [PressPayNow, PressConfirm 8 30 31 32 None]
        (fst (processPayment (Some ''u1'') 7 19 20 21 None (demo_screen, demo_db)))
       = fst (processPayment (Some ''u1'') 7 19 20 21 None (demo_screen, demo_db))"
proof -
  have h1: "map_option (f_status \<circ> fv_fine) (fineDetails demo_paid_screen) = Some paid"
    by (simp add: demo_paid_screen_def)
  have h2: "\<not> paymentModalVisible demo_paid_screen"
    by (simp add: demo_paid_screen_def)
  have h3: "fineDetails demo_screen = Some \<lparr>fv_fine = demo_fine, fv_license_plate = ''ABC123'',
                           fv_model = ''Civic'', fv_color = ''red''\<rparr> \<and> Some ''u1'' \<noteq> None"
    by (simp add: demo_screen_def)
  from paid_copy_never_writes[of demo_paid_screen "Some ''u1''" "[PressPayNow, PressConfirm 8 30 31 32 None]"
         demo_db demo_screen "\<lparr>fv_fine = demo_fine, fv_license_plate = ''ABC123'', fv_model = ''Civic'', fv_color = ''red''\<rparr>" 7 19 20 21] h1 h2 h3
  show ?thesis by blast
qed

lemma pay_sequence:
  "fineDetails scr = Some fv \<Longrightarrow> f_status (fv_fine fv) \<noteq> paid \<Longrightarrow> \<not> processingPayment scr \<Longrightarrow>
   fines (snd (fine_screen_run (Some uid) [PressPayNow, PressConfirm rnd now_id now_db now_local None] (scr, db))) =
     update_fines_paid (f_id (fv_fine fv)) (f_vehicle_id (fv_fine fv)) now_db (mockTransactionId rnd now_id) (fines db)"
  by (simp add: fine_screen_step_def handlePayFine_def processPayment_def Let_def)

lemma demo_tx: "mockTransactionId 7 19 = ''TX-7-19''" "mockTransactionId 8 30 = ''TX-8-30''"
  by (simp_all add: mockTransactionId_def string_of_nat.simps digit_char_def)

lemma demo_first_payment:
  "fines (snd (fine_screen_run (Some ''u1'') [PressPayNow, PressConfirm 7 19 20 21 None] (demo_screen, demo_db))) =
     [demo_fine\<lparr>f_status := paid, f_payment_date := Some 20, f_transaction_id := Some ''TX-7-19''\<rparr>]"
  by (subst pay_sequence[of _ "\<lparr>fv_fine = demo_fine, fv_license_plate = ''ABC123'', fv_model = ''Civic'', fv_color = ''red''\<rparr>"])
     (simp_all add: demo_screen_def demo_db_def demo_fine_def new_fine_def update_fines_paid_def demo_tx)

lemma demo_second_payment:
  "fines (snd (fine_screen_run (Some ''u1'') [PressPayNow, PressConfirm 8 30 31 32 None]
           (demo_screen,
            snd (fine_screen_run (Some ''u1'') [PressPayNow, PressConfirm 7 19 20 21 None]
                   (demo_screen, demo_db))))) =
     [demo_fine\<lparr>f_status := paid, f_payment_date := Some 31, f_transaction_id := Some ''TX-8-30''\<rparr>]"
proof -
  define db1 where "db1 = snd (fine_screen_run (Some ''u1'') [PressPayNow, PressConfirm 7 19 20 21 None]
                   (demo_screen, demo_db))"
  have "fines (snd (fine_screen_run (Some ''u1'') [PressPayNow, PressConfirm 8 30 31 32 None] (demo_screen, db1))) =
     update_fines_paid (f_id demo_fine) (f_vehicle_id demo_fine) 31 (mockTransactionId 8 30) (fines db1)"
    using pay_sequence[of demo_screen "\<lparr>fv_fine = demo_fine, fv_license_plate = ''ABC123'', fv_model = ''Civic'', fv_color = ''red''\<rparr>"
            "''u1''" 8 30 31 32 db1]
    by (simp add: demo_screen_def demo_fine_def new_fine_def)
  also have "fines db1 =
     [demo_fine\<lparr>f_status := paid, f_payment_date := Some 20, f_transaction_id := Some ''TX-7-19''\<rparr>]"
    unfolding db1_def by (rule demo_first_payment)
  finally show ?thesis
    unfolding db1_def by (simp add: demo_fine_def new_fine_def update_fines_paid_def demo_tx)
qed

text \<open>
  C6 as stated fails.  Two screens have loaded the same unpaid fine.  The payment from
  the first makes the row paid with identifier \<open>TX-7-19\<close> and payment date 20; the
  second screen still holds the unpaid copy, its payment goes through, and the row now
  has identifier \<open>TX-8-30\<close> and payment date 31.
\<close>

theorem stale_copy_overwrites_payment:
  "map f_status (fines (snd (fine_screen_run (Some ''u1'') [PressPayNow, PressConfirm 7 19 20 21 None]
                               (demo_screen, demo_db)))) = [paid]
   \<and> map f_transaction_id (fines (snd (fine_screen_run (Some ''u1'') [PressPayNow, PressConfirm 7 19 20 21 None]
                               (demo_screen, demo_db)))) = [Some ''TX-7-19'']
   \<and> map f_payment_date (fines (snd (fine_screen_run (Some ''u1'') [PressPayNow, PressConfirm 7 19 20 21 None]
                               (demo_screen, demo_db)))) = [Some 20]
   \<and> map f_transaction_id
        (fines (snd (fine_screen_run (Some ''u1'') [PressPayNow, PressConfirm 8 30 31 32 None]
           (demo_screen,
            snd (fine_screen_run (Some ''u1'') [PressPayNow, PressConfirm 7 19 20 21 None]
                   (demo_screen, demo_db)))))) = [Some ''TX-8-30'']
   \<and> map f_payment_date
        (fines (snd (fine_screen_run (Some ''u1'') [PressPayNow, PressConfirm 8 30 31 32 None]
           (demo_screen,
            snd (fine_screen_run (Some ''u1'') [PressPayNow, PressConfirm 7 19 20 21 None]
                   (demo_screen, demo_db)))))) = [Some 31]"
  by (simp only: demo_first_payment demo_second_payment) simp

subsection \<open>The status badge\<close>

lemma FineDetailsScreen_badge_paid: "f_status f = paid \<Longrightarrow> FineDetailsScreen_badge f now = ''PAID''"
  by (simp add: FineDetailsScreen_badge_def isPastDue_def StatusBadge_def status_text_def case_defs
           split: option.splits)

lemma FineDetailsScreen_badge_overdue:
  "f_status f = unpaid \<Longrightarrow>
   FineDetailsScreen_badge f now = (if \<exists>due. f_due_date f = Some due \<and> due < now then ''OVERDUE'' else ''UNPAID'')"
  by (simp add: FineDetailsScreen_badge_def isPastDue_def StatusBadge_def status_text_def case_defs
           split: option.splits)

text \<open>
  C7.  The details screen derives the overdue badge at each render, as the two lemmas
  above say.  The list item does not: for an unpaid fine due at instant 100 and looked at
  at instant 200, the details screen shows \<open>OVERDUE\<close> and the list item, which is given
  the stored status and no clock, shows \<open>UNPAID\<close>.
\<close>

theorem FineItem_shows_stored_status:
  "f_status demo_due_fine = unpaid \<and> f_due_date demo_due_fine = Some 100
   \<and> FineDetailsScreen_badge demo_due_fine 200 = ''OVERDUE''
   \<and> renderItem demo_due_fine = ''UNPAID''"
  by code_simp

section \<open>Properties of complaint review\<close>

lemma update_complaint_Nil: "update_complaint ident st resp now uid [] = []"
  by (simp add: update_complaint_def)

lemma update_complaint_Cons:
  "update_complaint ident st resp now uid (c # cs) =
     (if c_id c = ident
      then
        (let c1 = c\<lparr>c_status := st\<rparr>;
             c2 = (case resp of None \<Rightarrow> c1 | Some r \<Rightarrow> if r = [] then c1 else c1\<lparr>c_response := Some r\<rparr>)
         in if st = resolved then c2\<lparr>c_resolved_at := Some now, c_resolved_by := Some uid\<rparr> else c2)
      else c) # update_complaint ident st resp now uid cs"
  by (simp add: update_complaint_def)

lemma trim_nonempty: "trim r \<noteq> [] \<Longrightarrow> r \<noteq> []"
  by (auto simp: trim_def)

lemma recorded_update_one:
  assumes "resolution_recorded c" "st = rejected \<longrightarrow> (\<exists>r. resp = Some r \<and> trim r \<noteq> [])"
  shows "resolution_recorded
     (let c1 = c\<lparr>c_status := st\<rparr>;
          c2 = (case resp of None \<Rightarrow> c1 | Some r \<Rightarrow> if r = [] then c1 else c1\<lparr>c_response := Some r\<rparr>)
      in if st = resolved then c2\<lparr>c_resolved_at := Some now, c_resolved_by := Some uid\<rparr> else c2)"
proof (cases st)
  case pending
  then show ?thesis by (cases resp) (simp_all add: resolution_recorded_def Let_def)
next
  case in_review
  then show ?thesis by (cases resp) (simp_all add: resolution_recorded_def Let_def)
next
  case resolved
  then show ?thesis by (cases resp) (simp_all add: resolution_recorded_def Let_def)
next
  case rejected
  with assms(2) obtain r where r: "resp = Some r" "trim r \<noteq> []" by blast
  then have "r \<noteq> []" by (simp add: trim_nonempty)
  with rejected r show ?thesis by (simp add: resolution_recorded_def Let_def)
qed

lemma recorded_update:
  assumes "\<forall>c \<in> set cs. resolution_recorded c" "st = rejected \<longrightarrow> (\<exists>r. resp = Some r \<and> trim r \<noteq> [])"
  shows "\<forall>c \<in> set (update_complaint ident st resp now uid cs). resolution_recorded c"
  using assms(1)
proof (induction cs)
  case Nil
  then show ?case by (simp add: update_complaint_Nil)
next
  case (Cons c cs)
  then have c: "resolution_recorded c" and cs: "\<forall>c \<in> set (update_complaint ident st resp now uid cs). resolution_recorded c"
    by simp_all
  from recorded_update_one[OF c assms(2), where now=now and uid=uid] c cs show ?case
    by (simp only: update_complaint_Cons list.set ball_simps split: if_splits) simp
qed

lemma complaints_updateComplaintStatus:
  "complaints (fst (updateComplaintStatus sess now fault nfault shown ident st resp db)) = complaints db
   \<or> (\<exists>uid. complaints (fst (updateComplaintStatus sess now fault nfault shown ident st resp db)) =
        update_complaint ident st resp now uid (complaints db))"
  by (cases sess; cases fault; cases "find (\<lambda>c. c_id c = ident) shown")
     (auto simp: updateComplaintStatus_def Let_def)

lemma recorded_updateComplaintStatus:
  assumes "\<forall>c \<in> set (complaints db). resolution_recorded c"
    "st = rejected \<longrightarrow> (\<exists>r. resp = Some r \<and> trim r \<noteq> [])"
  shows "\<forall>c \<in> set (complaints (fst (updateComplaintStatus sess now fault nfault shown ident st resp db))).
           resolution_recorded c"
  using complaints_updateComplaintStatus[of sess now fault nfault shown ident st resp db]
    recorded_update[OF assms, of ident now] assms(1)
  by auto

lemma recorded_new_complaint: "resolution_recorded (new_complaint new_id uid subject descr vid fid tid created)"
  by (simp add: resolution_recorded_def new_complaint_def)

lemma reachable_complaints_recorded:
  "reachable_complaints db \<Longrightarrow> \<forall>c \<in> set (complaints db). resolution_recorded c"
proof (induction rule: reachable_complaints.induct)
  case (no_complaints db)
  then show ?case by simp
next
  case (submitted db new_id uid subject descr vid fid tid created)
  then show ?case by (simp add: recorded_new_complaint)
next
  case (mark_in_review db sess now fault nfault shown confirmed ident)
  from mark_in_review.IH
  have "\<forall>c \<in> set (complaints (fst (updateComplaintStatus sess now fault nfault shown ident in_review None db))).
          resolution_recorded c"
    by (rule recorded_updateComplaintStatus) simp
  then show ?case by (simp add: handleStatusChange_def)
next
  case (resolve db sess now fault nfault shown confirmed ident)
  from resolve.IH
  have "\<forall>c \<in> set (complaints (fst (updateComplaintStatus sess now fault nfault shown ident resolved None db))).
          resolution_recorded c"
    by (rule recorded_updateComplaintStatus) simp
  with resolve.IH show ?case by (simp add: handleStatusChange_def)
next
  case (respond db sess now fault nfault shown selectedComplaint selectedStatus responseText)
  show ?case
  proof (cases selectedComplaint)
    case None
    with respond.IH show ?thesis by (simp add: handleSubmitResponse_def)
  next
    case (Some sel)
    show ?thesis
    proof (cases "trim responseText = []")
      case True
      with Some respond.IH show ?thesis by (simp add: handleSubmitResponse_def)
    next
      case False
      from respond.IH
      have "\<forall>c \<in> set (complaints (fst (updateComplaintStatus sess now fault nfault shown (c_id sel)
                selectedStatus (Some responseText) db))). resolution_recorded c"
        by (rule recorded_updateComplaintStatus) (simp add: False)
      with Some False show ?thesis by (simp add: handleSubmitResponse_def)
    qed
  qed
qed

lemma update_complaint_resolved:
  "c \<in> set (update_complaint ident resolved resp now uid cs) \<Longrightarrow> c_id c = ident \<Longrightarrow>
   c_status c = resolved \<and> c_resolved_at c = Some now \<and> c_resolved_by c = Some uid"
proof (induction cs)
  case Nil
  then show ?case by (simp add: update_complaint_Nil)
next
  case (Cons d ds)
  show ?case
  proof (cases "c \<in> set (update_complaint ident resolved resp now uid ds)")
    case True
    with Cons show ?thesis by simp
  next
    case False
    with Cons.prems show ?thesis
      by (cases resp; cases "c_id d = ident") (auto simp: update_complaint_Cons Let_def)
  qed
qed

lemma update_complaint_response:
  "c \<in> set (update_complaint ident st (Some r) now uid cs) \<Longrightarrow> c_id c = ident \<Longrightarrow> r \<noteq> [] \<Longrightarrow>
   c_status c = st \<and> c_response c = Some r"
proof (induction cs)
  case Nil
  then show ?case by (simp add: update_complaint_Nil)
next
  case (Cons d ds)
  show ?case
  proof (cases "c \<in> set (update_complaint ident st (Some r) now uid ds)")
    case True
    with Cons show ?thesis by simp
  next
    case False
    with Cons.prems show ?thesis
      by (cases "c_id d = ident") (auto simp: update_complaint_Cons Let_def)
  qed
qed

text \<open>
  C8 (as amended).  In every database the complaint screens can produce, a resolved
  complaint has its resolver and resolution date and a rejected complaint has a response
  that is not blank.  The update to \<open>resolved\<close> writes the resolution date and the
  resolver in the same call as the status, and an update that is given a response writes
  it in the same call as the status.
\<close>

theorem resolution_columns_paired:
  "(reachable_complaints db \<longrightarrow>
      (\<forall>c \<in> set (complaints db).
         (c_status c = resolved \<longrightarrow> c_resolved_at c \<noteq> None \<and> c_resolved_by c \<noteq> None)
         \<and> (c_status c = rejected \<longrightarrow> (\<exists>r. c_response c = Some r \<and> trim r \<noteq> []))))
   \<and> (\<forall>c \<in> set (update_complaint ident resolved resp now uid cs).
        c_id c = ident \<longrightarrow>
        c_status c = resolved \<and> c_resolved_at c = Some now \<and> c_resolved_by c = Some uid)
   \<and> (\<forall>c \<in> set (update_complaint ident st (Some r) now uid cs).
        c_id c = ident \<and> r \<noteq> [] \<longrightarrow> c_status c = st \<and> c_response c = Some r)"
proof -
  have a: "reachable_complaints db \<longrightarrow>
      (\<forall>c \<in> set (complaints db).
         (c_status c = resolved \<longrightarrow> c_resolved_at c \<noteq> None \<and> c_resolved_by c \<noteq> None)
         \<and> (c_status c = rejected \<longrightarrow> (\<exists>r. c_response c = Some r \<and> trim r \<noteq> [])))"
    using reachable_complaints_recorded[of db] unfolding resolution_recorded_def by blast
  have b: "\<forall>c \<in> set (update_complaint ident resolved resp now uid cs).
        c_id c = ident \<longrightarrow>
        c_status c = resolved \<and> c_resolved_at c = Some now \<and> c_resolved_by c = Some uid"
    using update_complaint_resolved[of _ ident resp now uid cs] by blast
  have c: "\<forall>c \<in> set (update_complaint ident st (Some r) now uid cs).
        c_id c = ident \<and> r \<noteq> [] \<longrightarrow> c_status c = st \<and> c_response c = Some r"
    using update_complaint_response[of _ ident st r now uid cs] by blast
  from a b c show ?thesis by (intro conjI)
qed

lemma demo_resolved:
  "complaints (fst (handleStatusChange (Some ''staff1'') 20 None None [demo_complaint] True ''c1'' resolved
                      demo_complaints_db)) =
     [demo_complaint\<lparr>c_status := resolved, c_resolved_at := Some 20, c_resolved_by := Some ''staff1''\<rparr>]"
  by (simp add: handleStatusChange_def updateComplaintStatus_def update_complaint_def Let_def
        demo_complaints_db_def demo_complaint_def new_complaint_def)

lemma demo_rejected:
  "complaints (fst (handleSubmitResponse (Some ''staff1'') 20 None None [demo_complaint] (Some demo_complaint)
                      rejected ''No'' demo_complaints_db)) =
     [demo_complaint\<lparr>c_status := rejected, c_response := Some ''No''\<rparr>]"
  by (simp add: handleSubmitResponse_def updateComplaintStatus_def update_complaint_def Let_def
        demo_complaints_db_def demo_complaint_def new_complaint_def trim_def is_space_def)

text \<open>The database after the demonstration complaint has been resolved with one tap.\<close>

theorem resolution_columns_paired_witness:
  "reachable_complaints (fst (handleStatusChange (Some ''staff1'') 20 None None [demo_complaint] True ''c1''
                                resolved demo_complaints_db))
   \<and> complaints (fst (handleStatusChange (Some ''staff1'') 20 None None [demo_complaint] True ''c1''
                                resolved demo_complaints_db)) =
       [demo_complaint\<lparr>c_status := resolved, c_resolved_at := Some 20, c_resolved_by := Some ''staff1''\<rparr>]
   \<and> c_resolved_at (hd (complaints (fst (handleStatusChange (Some ''staff1'') 20 None None [demo_complaint] True
                                ''c1'' resolved demo_complaints_db)))) \<noteq> None
   \<and> c_resolved_by (hd (complaints (fst (handleStatusChange (Some ''staff1'') 20 None None [demo_complaint] True
                                ''c1'' resolved demo_complaints_db)))) \<noteq> None"
proof -
  let ?db = "fst (handleStatusChange (Some ''staff1'') 20 None None [demo_complaint] True ''c1''
                                resolved demo_complaints_db)"
  have "demo_complaints_db = \<lparr>vehicles = [], tows = [], fines = [], complaints = [], notifications = []\<rparr>
          \<lparr>complaints := complaints \<lparr>vehicles = [], tows = [], fines = [], complaints = [], notifications = []\<rparr>
             @ [new_complaint ''c1'' ''u1'' ''Tow'' ''Wrong car'' None None None 10]\<rparr>"
    by (simp add: demo_complaints_db_def demo_complaint_def)
  moreover have "reachable_complaints (\<lparr>vehicles = [], tows = [], fines = [], complaints = [], notifications = []\<rparr>
          \<lparr>complaints := complaints \<lparr>vehicles = [], tows = [], fines = [], complaints = [], notifications = []\<rparr>
             @ [new_complaint ''c1'' ''u1'' ''Tow'' ''Wrong car'' None None None 10]\<rparr>)"
    by (rule reachable_complaints.submitted, rule reachable_complaints.no_complaints) simp
  ultimately have "reachable_complaints demo_complaints_db" by simp
  then have r: "reachable_complaints ?db"
    by (rule reachable_complaints.resolve)
  have m: "hd (complaints ?db) \<in> set (complaints ?db)" by (simp add: demo_resolved)
  have st: "c_status (hd (complaints ?db)) = resolved" by (simp add: demo_resolved)
  from resolution_columns_paired[of ?db] r m
  have "c_status (hd (complaints ?db)) = resolved \<longrightarrow>
          c_resolved_at (hd (complaints ?db)) \<noteq> None \<and> c_resolved_by (hd (complaints ?db)) \<noteq> None"
    by blast
  with st have "c_resolved_at (hd (complaints ?db)) \<noteq> None \<and> c_resolved_by (hd (complaints ?db)) \<noteq> None"
    by simp
  with r demo_resolved show ?thesis by (intro conjI) simp_all
qed

text \<open>
  C8 as stated fails.  The one-tap Resolve action passes no response, so the pending
  demonstration complaint becomes resolved with no response; and rejecting it through the
  response dialog writes the status and the response but neither resolver nor resolution
  date.
\<close>

theorem resolved_without_response:
  "map c_status (complaints (fst (handleStatusChange (Some ''staff1'') 20 None None [demo_complaint] True ''c1''
                                    resolved demo_complaints_db))) = [resolved]
   \<and> map c_response (complaints (fst (handleStatusChange (Some ''staff1'') 20 None None [demo_complaint] True ''c1''
                                    resolved demo_complaints_db))) = [None]
   \<and> map c_status (complaints (fst (handleSubmitResponse (Some ''staff1'') 20 None None [demo_complaint]
                                    (Some demo_complaint) rejected ''No'' demo_complaints_db))) = [rejected]
   \<and> map c_resolved_at (complaints (fst (handleSubmitResponse (Some ''staff1'') 20 None None [demo_complaint]
                                    (Some demo_complaint) rejected ''No'' demo_complaints_db))) = [None]
   \<and> map c_resolved_by (complaints (fst (handleSubmitResponse (Some ''staff1'') 20 None None [demo_complaint]
                                    (Some demo_complaint) rejected ''No'' demo_complaints_db))) = [None]"
  by (simp only: demo_resolved demo_rejected) (simp add: demo_complaint_def new_complaint_def)

section \<open>Properties of the owner's reads\<close>






lemma cc_complaint_complete [simp]: "cc_complaint (completeComplaint vm tm fm c) = c"
  by (simp add: completeComplaint_def)

lemma rc_complaint_complete [simp]: "rc_complaint (completeReviewed pm vm tm fm c) = c"
  by (simp add: completeReviewed_def)


















section \<open>Properties of the plate lookup\<close>

lemma IssueFine_queries:
  "fst (IssueFine_searchVehicle js sess backend plate v) \<in>
     {[], [Eq_license_plate (String_toUpperCase js (String_trim js plate))],
      [Eq_license_plate (String_toUpperCase js (String_trim js plate)),
       Ilike_license_plate (''%'' @ String_toUpperCase js (String_trim js plate) @ ''%'')]}"
  by (simp add: IssueFine_searchVehicle_def Let_def split: reply.splits list.splits)

lemma IssueFine_first:
  "String_trim js plate \<noteq> [] \<Longrightarrow> sess \<noteq> None \<Longrightarrow>
   hd (fst (IssueFine_searchVehicle js sess backend plate v)) =
     Eq_license_plate (String_toUpperCase js (String_trim js plate))
   \<and> fst (IssueFine_searchVehicle js sess backend plate v) \<noteq> []"
  by (simp add: IssueFine_searchVehicle_def Let_def split: reply.splits list.splits)

lemma IssueFine_fallback:
  "Ilike_license_plate pat \<in> set (fst (IssueFine_searchVehicle js sess backend plate v)) \<Longrightarrow>
   backend (Eq_license_plate (String_toUpperCase js (String_trim js plate))) = Returned []"
  by (simp add: IssueFine_searchVehicle_def Let_def split: reply.splits list.splits if_splits)

lemma IssueFine_exact:
  "String_trim js plate \<noteq> [] \<Longrightarrow> sess \<noteq> None \<Longrightarrow>
   backend (Eq_license_plate (String_toUpperCase js (String_trim js plate))) = Returned (x # xs) \<Longrightarrow>
   IssueFine_searchVehicle js sess backend plate v =
     ([Eq_license_plate (String_toUpperCase js (String_trim js plate))], Some x, [])"
  by (simp add: IssueFine_searchVehicle_def Let_def)

lemma IssueFine_ambiguous:
  "String_trim js plate \<noteq> [] \<Longrightarrow> sess \<noteq> None \<Longrightarrow>
   backend (Eq_license_plate (String_toUpperCase js (String_trim js plate))) = Returned [] \<Longrightarrow>
   backend (Ilike_license_plate (''%'' @ String_toUpperCase js (String_trim js plate) @ ''%'')) = Returned rows \<Longrightarrow>
   1 < length rows \<Longrightarrow>
   IssueFine_searchVehicle js sess backend plate v =
     ([Eq_license_plate (String_toUpperCase js (String_trim js plate)),
       Ilike_license_plate (''%'' @ String_toUpperCase js (String_trim js plate) @ ''%'')],
      Some (hd rows), [Alert ''Multiple Matches'' ''Multiple vehicles found. Showing the first match.''])"
  by (cases rows) (simp_all add: IssueFine_searchVehicle_def Let_def)

lemma RecordTow_queries:
  "fst (RecordTow_searchVehicle js backend form) \<in>
     {[], [Eq_license_plate (String_toUpperCase js (String_trim js (licensePlate form)))],
      [Eq_license_plate (String_toUpperCase js (String_trim js (licensePlate form))),
       Ilike_license_plate (''%'' @ String_toUpperCase js (String_trim js (licensePlate form)) @ ''%'')]}"
  by (simp add: RecordTow_searchVehicle_def Let_def split: reply.splits prod.splits)

lemma RecordTow_first:
  "licensePlate form \<noteq> [] \<Longrightarrow> String_trim js (licensePlate form) \<noteq> [] \<Longrightarrow>
   hd (fst (RecordTow_searchVehicle js backend form)) =
     Eq_license_plate (String_toUpperCase js (String_trim js (licensePlate form)))
   \<and> fst (RecordTow_searchVehicle js backend form) \<noteq> []"
  by (simp add: RecordTow_searchVehicle_def Let_def split: reply.splits prod.splits)

lemma RecordTow_fallback:
  "Ilike_license_plate pat \<in> set (fst (RecordTow_searchVehicle js backend form)) \<Longrightarrow>
   backend (Eq_license_plate (String_toUpperCase js (String_trim js (licensePlate form)))) = Returned []"
  by (simp add: RecordTow_searchVehicle_def Let_def split: reply.splits prod.splits if_splits)

lemma use_search_result_first:
  "vehicleFound (fst (use_search_result js (x # xs) form)) = Some x"
  by (cases xs) (simp_all add: use_search_result_def)

lemma RecordTow_exact:
  assumes "licensePlate form \<noteq> []" "String_trim js (licensePlate form) \<noteq> []"
    "backend (Eq_license_plate (String_toUpperCase js (String_trim js (licensePlate form)))) = Returned (x # xs)"
  shows "fst (RecordTow_searchVehicle js backend form) =
          [Eq_license_plate (String_toUpperCase js (String_trim js (licensePlate form)))]
   \<and> vehicleFound (fst (snd (RecordTow_searchVehicle js backend form))) = Some x"
proof -
  obtain form1 es where u:
    "use_search_result js (x # xs) (form\<lparr>vehicleFound := None, vehicleNotFound := False\<rparr>) = (form1, es)"
    by (cases "use_search_result js (x # xs) (form\<lparr>vehicleFound := None, vehicleNotFound := False\<rparr>)")
  from use_search_result_first[of js x xs "form\<lparr>vehicleFound := None, vehicleNotFound := False\<rparr>"] u
  have "vehicleFound form1 = Some x" by simp
  moreover from assms u have "RecordTow_searchVehicle js backend form =
          ([Eq_license_plate (String_toUpperCase js (String_trim js (licensePlate form)))], form1, es)"
    by (simp add: RecordTow_searchVehicle_def Let_def)
  ultimately show ?thesis by simp
qed

lemma use_search_result_many:
  assumes "1 < length rows"
  shows "vehicleFound (fst (use_search_result js rows form)) = Some (hd rows)
   \<and> snd (use_search_result js rows form) =
       [Alert ''Multiple Matches''
          (''Found '' @ string_of_nat (length rows) @
           '' vehicles with similar license plates. Using the first match.'')]"
proof (cases rows)
  case Nil
  with assms show ?thesis by simp
next
  case (Cons v rest)
  show ?thesis
  proof (cases rest)
    case Nil
    with Cons assms show ?thesis by simp
  next
    case (Cons w more)
    with \<open>rows = v # rest\<close> show ?thesis by (simp add: use_search_result_def)
  qed
qed

lemma RecordTow_ambiguous:
  assumes "licensePlate form \<noteq> []" "String_trim js (licensePlate form) \<noteq> []"
    "backend (Eq_license_plate (String_toUpperCase js (String_trim js (licensePlate form)))) = Returned []"
    "backend (Ilike_license_plate (''%'' @ String_toUpperCase js (String_trim js (licensePlate form)) @ ''%'')) =
       Returned rows"
    "1 < length rows"
  shows "fst (RecordTow_searchVehicle js backend form) =
          [Eq_license_plate (String_toUpperCase js (String_trim js (licensePlate form))),
           Ilike_license_plate (''%'' @ String_toUpperCase js (String_trim js (licensePlate form)) @ ''%'')]
   \<and> vehicleFound (fst (snd (RecordTow_searchVehicle js backend form))) = Some (hd rows)
   \<and> snd (snd (RecordTow_searchVehicle js backend form)) =
       [Alert ''Multiple Matches''
          (''Found '' @ string_of_nat (length rows) @
           '' vehicles with similar license plates. Using the first match.'')]"
proof -
  obtain form1 es where u:
    "use_search_result js rows (form\<lparr>vehicleFound := None, vehicleNotFound := False\<rparr>) = (form1, es)"
    by (cases "use_search_result js rows (form\<lparr>vehicleFound := None, vehicleNotFound := False\<rparr>)")
  from use_search_result_many[OF assms(5), of js "form\<lparr>vehicleFound := None, vehicleNotFound := False\<rparr>"] u
  have "vehicleFound form1 = Some (hd rows)"
    "es = [Alert ''Multiple Matches''
          (''Found '' @ string_of_nat (length rows) @
           '' vehicles with similar license plates. Using the first match.'')]"
    by simp_all
  moreover from assms u have "RecordTow_searchVehicle js backend form =
          ([Eq_license_plate (String_toUpperCase js (String_trim js (licensePlate form))),
            Ilike_license_plate (''%'' @ String_toUpperCase js (String_trim js (licensePlate form)) @ ''%'')],
           form1, es)"
    by (simp add: RecordTow_searchVehicle_def Let_def)
  ultimately show ?thesis by simp
qed

text \<open>
  The searches of the issue-fine screen and of the tow recording screen do what is asked
  of a plate lookup, for every plate text and whatever the platform's string functions
  and the backend do.  Both issue at most two queries, in this order: the equality query
  on the trimmed, upper-cased plate, then the pattern query on the same text.  A search
  that gets past its guards (a plate that is not blank, and for the issue-fine screen a
  session) starts with the equality query; a row returned by the equality query is the
  vehicle used, and then no pattern query is issued; the pattern query is issued only when
  the equality query returned no row; and when the equality query returns no row and the
  pattern query more than one, the first row is taken and a Multiple Matches alert is shown.
\<close>

lemma plate_lookup_two_pass:
  "let p = String_toUpperCase js (String_trim js plate);
       q1 = Eq_license_plate p;
       q2 = Ilike_license_plate (''%'' @ p @ ''%'');
       res = IssueFine_searchVehicle js sess backend plate v;
       pt = String_toUpperCase js (String_trim js (licensePlate form));
       t1 = Eq_license_plate pt;
       t2 = Ilike_license_plate (''%'' @ pt @ ''%'');
       tres = RecordTow_searchVehicle js backend form
   in fst res \<in> {[], [q1], [q1, q2]}
      \<and> (String_trim js plate \<noteq> [] \<and> sess \<noteq> None \<longrightarrow> fst res \<noteq> [] \<and> hd (fst res) = q1)
      \<and> (String_trim js plate \<noteq> [] \<and> sess \<noteq> None \<and> backend q1 = Returned (x # xs) \<longrightarrow>
           res = ([q1], Some x, []))
      \<and> (q2 \<in> set (fst res) \<longrightarrow> backend q1 = Returned [])
      \<and> (String_trim js plate \<noteq> [] \<and> sess \<noteq> None \<and> backend q1 = Returned [] \<and> backend q2 = Returned rows
            \<and> 1 < length rows \<longrightarrow>
          res = ([q1, q2], Some (hd rows),
                 [Alert ''Multiple Matches'' ''Multiple vehicles found. Showing the first match.'']))
      \<and> fst tres \<in> {[], [t1], [t1, t2]}
      \<and> (licensePlate form \<noteq> [] \<and> String_trim js (licensePlate form) \<noteq> [] \<longrightarrow>
           fst tres \<noteq> [] \<and> hd (fst tres) = t1)
      \<and> (licensePlate form \<noteq> [] \<and> String_trim js (licensePlate form) \<noteq> []
            \<and> backend t1 = Returned (y # others) \<longrightarrow>
           fst tres = [t1] \<and> vehicleFound (fst (snd tres)) = Some y)
      \<and> (t2 \<in> set (fst tres) \<longrightarrow> backend t1 = Returned [])
      \<and> (licensePlate form \<noteq> [] \<and> String_trim js (licensePlate form) \<noteq> [] \<and> backend t1 = Returned []
            \<and> backend t2 = Returned trows \<and> 1 < length trows \<longrightarrow>
          fst tres = [t1, t2]
          \<and> vehicleFound (fst (snd tres)) = Some (hd trows)
          \<and> snd (snd tres) =
              [Alert ''Multiple Matches''
                 (''Found '' @ string_of_nat (length trows) @
                  '' vehicles with similar license plates. Using the first match.'')])"
proof -
  let ?p = "String_toUpperCase js (String_trim js plate)"
  let ?q1 = "Eq_license_plate ?p"
  let ?q2 = "Ilike_license_plate (''%'' @ ?p @ ''%'')"
  let ?res = "IssueFine_searchVehicle js sess backend plate v"
  let ?pt = "String_toUpperCase js (String_trim js (licensePlate form))"
  let ?t1 = "Eq_license_plate ?pt"
  let ?t2 = "Ilike_license_plate (''%'' @ ?pt @ ''%'')"
  let ?tres = "RecordTow_searchVehicle js backend form"
  have c1: "fst ?res \<in> {[], [?q1], [?q1, ?q2]}"
    by (rule IssueFine_queries)
  have c2: "String_trim js plate \<noteq> [] \<and> sess \<noteq> None \<longrightarrow> fst ?res \<noteq> [] \<and> hd (fst ?res) = ?q1"
    using IssueFine_first[of js plate sess backend v] by simp
  have c3: "String_trim js plate \<noteq> [] \<and> sess \<noteq> None \<and> backend ?q1 = Returned (x # xs) \<longrightarrow>
           ?res = ([?q1], Some x, [])"
    using IssueFine_exact[of js plate sess backend x xs v] by simp
  have c4: "?q2 \<in> set (fst ?res) \<longrightarrow> backend ?q1 = Returned []"
    using IssueFine_fallback[of "''%'' @ ?p @ ''%''" js sess backend plate v] by simp
  have c5: "String_trim js plate \<noteq> [] \<and> sess \<noteq> None \<and> backend ?q1 = Returned [] \<and> backend ?q2 = Returned rows
            \<and> 1 < length rows \<longrightarrow>
          ?res = ([?q1, ?q2], Some (hd rows),
                 [Alert ''Multiple Matches'' ''Multiple vehicles found. Showing the first match.''])"
    using IssueFine_ambiguous[of js plate sess backend rows v] by simp
  have c6: "fst ?tres \<in> {[], [?t1], [?t1, ?t2]}"
    by (rule RecordTow_queries)
  have c7: "licensePlate form \<noteq> [] \<and> String_trim js (licensePlate form) \<noteq> [] \<longrightarrow>
           fst ?tres \<noteq> [] \<and> hd (fst ?tres) = ?t1"
    using RecordTow_first[of form js backend] by simp
  have c8: "licensePlate form \<noteq> [] \<and> String_trim js (licensePlate form) \<noteq> []
            \<and> backend ?t1 = Returned (y # others) \<longrightarrow>
           fst ?tres = [?t1] \<and> vehicleFound (fst (snd ?tres)) = Some y"
    using RecordTow_exact[of form js backend y others] by simp
  have c9: "?t2 \<in> set (fst ?tres) \<longrightarrow> backend ?t1 = Returned []"
    using RecordTow_fallback[of "''%'' @ ?pt @ ''%''" js backend form] by simp
  have c10: "licensePlate form \<noteq> [] \<and> String_trim js (licensePlate form) \<noteq> [] \<and> backend ?t1 = Returned []
            \<and> backend ?t2 = Returned trows \<and> 1 < length trows \<longrightarrow>
          fst ?tres = [?t1, ?t2]
          \<and> vehicleFound (fst (snd ?tres)) = Some (hd trows)
          \<and> snd (snd ?tres) =
              [Alert ''Multiple Matches''
                 (''Found '' @ string_of_nat (length trows) @
                  '' vehicles with similar license plates. Using the first match.'')]"
    using RecordTow_ambiguous[of form js backend trows] by simp
  show ?thesis
    unfolding Let_def
    by (intro conjI) (rule c1 c2 c3 c4 c5 c6 c7 c8 c9 c10)+
qed

text \<open>
  The search of the vehicle search screen takes the first row of the pattern query
  without any alert, however many rows there are, and it issues the pattern query also
  when the equality query has failed.
\<close>

lemma VehicleSearch_fallback_found:
  assumes "plate \<noteq> []" "String_trim js plate \<noteq> []"
    "rows_of (backend (Eq_license_plate (String_toUpperCase js (String_trim js plate)))) = Some []"
    "backend (Ilike_license_plate (''%'' @ String_toUpperCase js (String_trim js plate) @ ''%'')) =
       Returned (x # xs)"
    "v_owner_id x = Some owner" "owner \<noteq> []" "owner_backend owner = Returned prof"
  shows "VehicleSearch_searchVehicle js backend tow_backend owner_backend plate st =
     \<lparr>run_queries = [Eq_license_plate (String_toUpperCase js (String_trim js plate)),
                      Ilike_license_plate (''%'' @ String_toUpperCase js (String_trim js plate) @ ''%'')],
      run_tow_queries = [],
      run_state = \<lparr>vs_vehicle = Some (with_owner x (Some prof)), vs_vehicleNotFound = False,
                    vs_towHistory = [], vs_fineHistory = []\<rparr>,
      run_effects = [], run_history = Some (v_id x)\<rparr>"
  using assms
  by (simp add: VehicleSearch_searchVehicle_def Let_def rows_of_def show_found_def search_reset_def)

lemma demo_plate: "String_toUpperCase ascii (String_trim ascii '' abc '') = ''ABC''"
  by (simp add: ascii_def trim_def is_space_def case_defs)

lemma demo_plate_given: "'' abc '' \<noteq> [] \<and> String_trim ascii '' abc '' \<noteq> []"
  by (simp add: ascii_def trim_def is_space_def)

lemma demo_exact: "table_backend [demo_vehicle1, demo_vehicle2] (Eq_license_plate ''ABC'') = Returned []"
  by (simp add: table_backend_def demo_vehicle1_def demo_vehicle2_def)

lemma demo_fallback:
  "table_backend [demo_vehicle1, demo_vehicle2] (Ilike_license_plate ''%ABC%'') =
     Returned [demo_vehicle1, demo_vehicle2]"
  by (simp add: table_backend_def demo_vehicle1_def demo_vehicle2_def case_defs)

lemma demo_two: "string_of_nat (length [demo_vehicle1, demo_vehicle2]) = ''2''"
  by (simp add: string_of_nat.simps digit_char_def)

lemma demo_search_two_rows:
  "VehicleSearch_searchVehicle ascii (table_backend [demo_vehicle1, demo_vehicle2]) no_tows demo_owner_backend
     '' abc '' search_reset =
     \<lparr>run_queries = [Eq_license_plate ''ABC'', Ilike_license_plate ''%ABC%''], run_tow_queries = [],
      run_state = \<lparr>vs_vehicle = Some (with_owner demo_vehicle1 (Some demo_profile1)),
                    vs_vehicleNotFound = False, vs_towHistory = [], vs_fineHistory = []\<rparr>,
      run_effects = [], run_history = Some ''v1''\<rparr>"
proof -
  have "VehicleSearch_searchVehicle ascii (table_backend [demo_vehicle1, demo_vehicle2]) no_tows
          demo_owner_backend '' abc '' search_reset =
     \<lparr>run_queries = [Eq_license_plate (String_toUpperCase ascii (String_trim ascii '' abc '')),
                      Ilike_license_plate (''%'' @ String_toUpperCase ascii (String_trim ascii '' abc '') @ ''%'')],
      run_tow_queries = [],
      run_state = \<lparr>vs_vehicle = Some (with_owner demo_vehicle1 (Some demo_profile1)),
                    vs_vehicleNotFound = False, vs_towHistory = [], vs_fineHistory = []\<rparr>,
      run_effects = [], run_history = Some (v_id demo_vehicle1)\<rparr>"
    by (rule VehicleSearch_fallback_found[where xs = "[demo_vehicle2]" and owner = "''u1''"])
       (simp_all add: demo_plate demo_plate_given demo_exact demo_fallback rows_of_def
          demo_owner_backend_def, simp_all add: demo_vehicle1_def)
  then show ?thesis by (simp add: demo_plate) (simp add: demo_vehicle1_def)
qed

lemma demo_search_failed_exact:
  "VehicleSearch_searchVehicle ascii failing_exact_backend no_tows demo_owner_backend '' abc '' search_reset =
     \<lparr>run_queries = [Eq_license_plate ''ABC'', Ilike_license_plate ''%ABC%''], run_tow_queries = [],
      run_state = \<lparr>vs_vehicle = Some (with_owner demo_vehicle1 (Some demo_profile1)),
                    vs_vehicleNotFound = False, vs_towHistory = [], vs_fineHistory = []\<rparr>,
      run_effects = [], run_history = Some ''v1''\<rparr>"
proof -
  have "VehicleSearch_searchVehicle ascii failing_exact_backend no_tows demo_owner_backend '' abc '' search_reset =
     \<lparr>run_queries = [Eq_license_plate (String_toUpperCase ascii (String_trim ascii '' abc '')),
                      Ilike_license_plate (''%'' @ String_toUpperCase ascii (String_trim ascii '' abc '') @ ''%'')],
      run_tow_queries = [],
      run_state = \<lparr>vs_vehicle = Some (with_owner demo_vehicle1 (Some demo_profile1)),
                    vs_vehicleNotFound = False, vs_towHistory = [], vs_fineHistory = []\<rparr>,
      run_effects = [], run_history = Some (v_id demo_vehicle1)\<rparr>"
    by (rule VehicleSearch_fallback_found[where xs = "[demo_vehicle2]" and owner = "''u1''"])
       (simp_all add: demo_plate demo_plate_given failing_exact_backend_def rows_of_def
          demo_owner_backend_def, simp_all add: demo_vehicle1_def)
  then show ?thesis by (simp add: demo_plate) (simp add: demo_vehicle1_def)
qed

lemma demo_issue_two_rows:
  "IssueFine_searchVehicle ascii (Some ''officer1'') (table_backend [demo_vehicle1, demo_vehicle2]) '' abc '' None =
     ([Eq_license_plate ''ABC'', Ilike_license_plate ''%ABC%''], Some demo_vehicle1,
      [Alert ''Multiple Matches'' ''Multiple vehicles found. Showing the first match.''])"
  using IssueFine_ambiguous[of ascii "'' abc ''" "Some ''officer1''" "table_backend [demo_vehicle1, demo_vehicle2]"
          "[demo_vehicle1, demo_vehicle2]" None]
  by (simp add: demo_plate demo_plate_given demo_exact demo_fallback)

lemma demo_tow_two_rows:
  "fst (RecordTow_searchVehicle ascii (table_backend [demo_vehicle1, demo_vehicle2]) demo_tow_form) =
       [Eq_license_plate ''ABC'', Ilike_license_plate ''%ABC%'']
   \<and> vehicleFound (fst (snd (RecordTow_searchVehicle ascii (table_backend [demo_vehicle1, demo_vehicle2])
                                demo_tow_form))) = Some demo_vehicle1
   \<and> snd (snd (RecordTow_searchVehicle ascii (table_backend [demo_vehicle1, demo_vehicle2]) demo_tow_form)) =
       [Alert ''Multiple Matches'' ''Found 2 vehicles with similar license plates. Using the first match.'']"
proof -
  have lp: "licensePlate demo_tow_form = '' abc ''" by (simp add: demo_tow_form_def)
  from RecordTow_ambiguous[of demo_tow_form ascii "table_backend [demo_vehicle1, demo_vehicle2]"
         "[demo_vehicle1, demo_vehicle2]"]
  show ?thesis
    unfolding lp demo_plate
    using demo_plate_given demo_exact demo_fallback demo_two by simp
qed

lemma demo_issue_failed_exact:
  "IssueFine_searchVehicle ascii (Some ''officer1'') failing_exact_backend '' abc '' None =
     ([Eq_license_plate ''ABC''], None, search_failed)"
  using demo_plate_given
  by (simp add: IssueFine_searchVehicle_def Let_def demo_plate failing_exact_backend_def)

lemma demo_tow_failed_exact:
  "fst (RecordTow_searchVehicle ascii failing_exact_backend demo_tow_form) = [Eq_license_plate ''ABC'']
   \<and> snd (snd (RecordTow_searchVehicle ascii failing_exact_backend demo_tow_form)) =
       ConsoleError ''DEBUG: Database error when searching vehicle:'' # tow_search_failed"
proof -
  have lp: "licensePlate demo_tow_form = '' abc ''" by (simp add: demo_tow_form_def)
  show ?thesis
    using demo_plate_given
    by (simp add: RecordTow_searchVehicle_def Let_def lp demo_plate failing_exact_backend_def)
qed

text \<open>
  C3.  The claim holds of the searches of the issue-fine screen and of the tow recording
  screen (\<open>plate_lookup_two_pass\<close>) and fails for the third plate lookup, the search of
  the vehicle search screen.  A search for \<open>abc\<close> against the plates \<open>ABC123\<close> and
  \<open>ABC456\<close> finds no exact match and two rows in the fallback pass; the vehicle search
  screen shows the first of them with no alert at all, where the other two screens show
  their Multiple Matches alert.  And when the equality query fails, the vehicle search
  screen goes on to the pattern query and shows its first row, again without an alert,
  where the other two screens stop and report the failure.
\<close>

theorem VehicleSearch_silent_pick:
  "VehicleSearch_searchVehicle ascii (table_backend [demo_vehicle1, demo_vehicle2]) no_tows demo_owner_backend
     '' abc '' search_reset =
     \<lparr>run_queries = [Eq_license_plate ''ABC'', Ilike_license_plate ''%ABC%''], run_tow_queries = [],
      run_state = \<lparr>vs_vehicle = Some (with_owner demo_vehicle1 (Some demo_profile1)),
                    vs_vehicleNotFound = False, vs_towHistory = [], vs_fineHistory = []\<rparr>,
      run_effects = [], run_history = Some ''v1''\<rparr>
   \<and> IssueFine_searchVehicle ascii (Some ''officer1'') (table_backend [demo_vehicle1, demo_vehicle2]) '' abc '' None =
     ([Eq_license_plate ''ABC'', Ilike_license_plate ''%ABC%''], Some demo_vehicle1,
      [Alert ''Multiple Matches'' ''Multiple vehicles found. Showing the first match.''])
   \<and> snd (snd (RecordTow_searchVehicle ascii (table_backend [demo_vehicle1, demo_vehicle2]) demo_tow_form)) =
       [Alert ''Multiple Matches'' ''Found 2 vehicles with similar license plates. Using the first match.'']
   \<and> VehicleSearch_searchVehicle ascii failing_exact_backend no_tows demo_owner_backend '' abc '' search_reset =
     \<lparr>run_queries = [Eq_license_plate ''ABC'', Ilike_license_plate ''%ABC%''], run_tow_queries = [],
      run_state = \<lparr>vs_vehicle = Some (with_owner demo_vehicle1 (Some demo_profile1)),
                    vs_vehicleNotFound = False, vs_towHistory = [], vs_fineHistory = []\<rparr>,
      run_effects = [], run_history = Some ''v1''\<rparr>
   \<and> IssueFine_searchVehicle ascii (Some ''officer1'') failing_exact_backend '' abc '' None =
     ([Eq_license_plate ''ABC''], None, search_failed)
   \<and> fst (RecordTow_searchVehicle ascii failing_exact_backend demo_tow_form) = [Eq_license_plate ''ABC'']"
  using demo_search_two_rows demo_issue_two_rows demo_tow_two_rows demo_search_failed_exact
    demo_issue_failed_exact demo_tow_failed_exact
  by (intro conjI) simp_all

section \<open>Properties of tow recording\<close>

lemma handleSubmitTow_valid:
  "tow_form_valid js env form \<Longrightarrow>
   handleSubmitTow js env sess form db =
     (case vehicleFound form of
        Some v \<Rightarrow> tow_step js env form sess (Some (v_id v)) [] db
      | None \<Rightarrow>
          (case vehicle_insert env of
             Threw msg \<Rightarrow> (db, tow_failed)
           | Failed e \<Rightarrow>
               tow_step js env form sess None
                 [ConsoleError ''Error creating vehicle:'',
                  Alert ''Warning'' ''Could not create vehicle record. Proceeding with tow record only.''] db
           | Returned vid \<Rightarrow>
               tow_step js env form sess (Some vid) [] (db\<lparr>vehicles := vehicles db @ [newVehicleData js form vid]\<rparr>)))"
proof -
  assume v: "tow_form_valid js env form"
  show ?thesis
  proof (cases "issueFineToo form")
    case False
    with v show ?thesis by (simp add: tow_form_valid_def handleSubmitTow_def)
  next
    case True
    with v obtain y where "parseFloat env (fineAmount form) = Some y"
      by (auto simp: tow_form_valid_def)
    with v True show ?thesis by (simp add: tow_form_valid_def handleSubmitTow_def)
  qed
qed

lemma notify_step_tables:
  "vehicles (fst (notify_step env form towId es db)) = vehicles db
   \<and> tows (fst (notify_step env form towId es db)) = tows db
   \<and> fines (fst (notify_step env form towId es db)) = fines db"
  by (simp add: notify_step_def split: option.splits reply.splits)

lemma fine_step_tables:
  "vehicles (fst (fine_step js env form sess vehicleId towId es db)) = vehicles db
   \<and> tows (fst (fine_step js env form sess vehicleId towId es db)) = tows db"
  by (simp add: fine_step_def notify_step_tables split: reply.splits)

lemma tow_step_vehicles:
  "vehicles (fst (tow_step js env form sess vehicleId es db)) = vehicles db"
  by (simp add: tow_step_def fine_step_tables split: reply.splits)

lemma tow_step_tows:
  "tow_insert env = Returned tid \<Longrightarrow>
   tows (fst (tow_step js env form sess vehicleId es db)) = tows db @ [towPayload js form sess vehicleId tid]"
  by (simp add: tow_step_def fine_step_tables)

lemma created_vehicle:
  "tow_form_valid js env form \<Longrightarrow> vehicleFound form = None \<Longrightarrow> vehicle_insert env = Returned vid \<Longrightarrow>
   vehicles (fst (handleSubmitTow js env sess form db)) = vehicles db @ [newVehicleData js form vid]"
  by (simp add: handleSubmitTow_valid tow_step_vehicles)

lemma no_match_not_found:
  assumes "licensePlate form \<noteq> []" "String_trim js (licensePlate form) \<noteq> []"
    "backend (Eq_license_plate (String_toUpperCase js (String_trim js (licensePlate form)))) = Returned []"
    "backend (Ilike_license_plate (''%'' @ String_toUpperCase js (String_trim js (licensePlate form)) @ ''%'')) =
       Returned []"
  shows "vehicleFound (fst (snd (RecordTow_searchVehicle js backend form))) = None
     \<and> vehicleNotFound (fst (snd (RecordTow_searchVehicle js backend form)))"
  using assms by (simp add: RecordTow_searchVehicle_def Let_def use_search_result_def)

text \<open>
  What the flow does for a plate without a vehicle row, for every form and whatever the
  platform's string functions do.  When the form passes its checks, no vehicle was found
  and the vehicle insert succeeds, the flow adds exactly one vehicle row: without owner,
  with the trimmed, upper-cased plate, and with make, model and colour taken from the
  form, an empty field replaced by \<open>Unknown\<close> (make, model) or \<open>unknown\<close> (colour), so
  that none of the three is missing or empty.  A search that matches no row in either pass
  leaves the form with no vehicle found.
\<close>

lemma unknown_plate_creates_vehicle:
  "(tow_form_valid js env form \<and> vehicleFound form = None \<and> vehicle_insert env = Returned vid \<longrightarrow>
      vehicles (fst (handleSubmitTow js env sess form db)) = vehicles db @ [newVehicleData js form vid])
   \<and> v_owner_id (newVehicleData js form vid) = None
   \<and> v_license_plate (newVehicleData js form vid) = String_toUpperCase js (String_trim js (licensePlate form))
   \<and> v_make (newVehicleData js form vid) = Some (if vehicleMake form = [] then ''Unknown'' else vehicleMake form)
   \<and> v_model (newVehicleData js form vid) = (if vehicleModel form = [] then ''Unknown'' else vehicleModel form)
   \<and> v_color (newVehicleData js form vid) = (if vehicleColor form = [] then ''unknown'' else vehicleColor form)
   \<and> v_make (newVehicleData js form vid) \<noteq> None \<and> v_make (newVehicleData js form vid) \<noteq> Some []
   \<and> v_model (newVehicleData js form vid) \<noteq> [] \<and> v_color (newVehicleData js form vid) \<noteq> []
   \<and> (licensePlate form \<noteq> [] \<and> String_trim js (licensePlate form) \<noteq> []
        \<and> backend (Eq_license_plate (String_toUpperCase js (String_trim js (licensePlate form)))) = Returned []
        \<and> backend (Ilike_license_plate (''%'' @ String_toUpperCase js (String_trim js (licensePlate form)) @ ''%'')) =
            Returned [] \<longrightarrow>
      vehicleFound (fst (snd (RecordTow_searchVehicle js backend form))) = None
      \<and> vehicleNotFound (fst (snd (RecordTow_searchVehicle js backend form))))"
proof -
  have a: "tow_form_valid js env form \<and> vehicleFound form = None \<and> vehicle_insert env = Returned vid \<longrightarrow>
      vehicles (fst (handleSubmitTow js env sess form db)) = vehicles db @ [newVehicleData js form vid]"
    using created_vehicle[of js env form vid sess db] by blast
  have c: "licensePlate form \<noteq> [] \<and> String_trim js (licensePlate form) \<noteq> []
        \<and> backend (Eq_license_plate (String_toUpperCase js (String_trim js (licensePlate form)))) = Returned []
        \<and> backend (Ilike_license_plate (''%'' @ String_toUpperCase js (String_trim js (licensePlate form)) @ ''%'')) =
            Returned [] \<longrightarrow>
      vehicleFound (fst (snd (RecordTow_searchVehicle js backend form))) = None
      \<and> vehicleNotFound (fst (snd (RecordTow_searchVehicle js backend form)))"
    using no_match_not_found[of form js backend] by blast
  have b1: "v_owner_id (newVehicleData js form vid) = None"
    and b2: "v_license_plate (newVehicleData js form vid) = String_toUpperCase js (String_trim js (licensePlate form))"
    and b3: "v_make (newVehicleData js form vid) = Some (if vehicleMake form = [] then ''Unknown'' else vehicleMake form)"
    and b4: "v_model (newVehicleData js form vid) = (if vehicleModel form = [] then ''Unknown'' else vehicleModel form)"
    and b5: "v_color (newVehicleData js form vid) = (if vehicleColor form = [] then ''unknown'' else vehicleColor form)"
    and b6: "v_make (newVehicleData js form vid) \<noteq> None" and b7: "v_make (newVehicleData js form vid) \<noteq> Some []"
    and b8: "v_model (newVehicleData js form vid) \<noteq> []" and b9: "v_color (newVehicleData js form vid) \<noteq> []"
    by (simp_all add: newVehicleData_def)
  show ?thesis
    by (intro conjI) (rule a b1 b2 b3 b4 b5 b6 b7 b8 b9 c)+
qed

lemma demo_unknown_valid: "tow_form_valid ascii demo_env demo_unknown_form"
  by (simp add: tow_form_valid_def demo_unknown_form_def demo_tow_form_def ascii_def trim_def is_space_def)

lemma demo_unknown_plate: "String_toUpperCase ascii (String_trim ascii ''xyz999'') = ''XYZ999''"
  by (simp add: ascii_def trim_def is_space_def case_defs)

lemma demo_unknown_created:
  "vehicles (fst (handleSubmitTow ascii demo_env (Some ''staff1'') demo_unknown_form demo_db)) =
     [\<lparr>v_id = ''v9'', v_license_plate = ''XYZ999'', v_make = Some ''Unknown'', v_model = ''Unknown'',
       v_color = ''unknown'', v_owner_id = None, v_registered_name = None\<rparr>]"
proof -
  have "vehicles (fst (handleSubmitTow ascii demo_env (Some ''staff1'') demo_unknown_form demo_db)) =
          vehicles demo_db @ [newVehicleData ascii demo_unknown_form ''v9'']"
    by (rule created_vehicle[OF demo_unknown_valid])
       (simp_all add: demo_unknown_form_def demo_tow_form_def demo_env_def)
  moreover have "newVehicleData ascii demo_unknown_form ''v9'' =
     \<lparr>v_id = ''v9'', v_license_plate = ''XYZ999'', v_make = Some ''Unknown'', v_model = ''Unknown'',
       v_color = ''unknown'', v_owner_id = None, v_registered_name = None\<rparr>"
    by (simp add: newVehicleData_def demo_unknown_form_def demo_tow_form_def demo_unknown_plate)
  ultimately show ?thesis by (simp add: demo_db_def)
qed

lemma demo_blank_valid: "tow_form_valid ascii demo_env demo_blank_form"
  by (simp add: tow_form_valid_def demo_blank_form_def demo_unknown_form_def demo_tow_form_def
        ascii_def trim_def is_space_def)

lemma demo_blank_created:
  "vehicles (fst (handleSubmitTow ascii demo_env (Some ''staff1'') demo_blank_form demo_db)) =
     [\<lparr>v_id = ''v9'', v_license_plate = ''XYZ999'', v_make = Some '' '', v_model = '' '',
       v_color = '' '', v_owner_id = None, v_registered_name = None\<rparr>]"
proof -
  have "vehicles (fst (handleSubmitTow ascii demo_env (Some ''staff1'') demo_blank_form demo_db)) =
          vehicles demo_db @ [newVehicleData ascii demo_blank_form ''v9'']"
    by (rule created_vehicle[OF demo_blank_valid])
       (simp_all add: demo_blank_form_def demo_unknown_form_def demo_tow_form_def demo_env_def)
  moreover have "newVehicleData ascii demo_blank_form ''v9'' =
     \<lparr>v_id = ''v9'', v_license_plate = ''XYZ999'', v_make = Some '' '', v_model = '' '',
       v_color = '' '', v_owner_id = None, v_registered_name = None\<rparr>"
    by (simp add: newVehicleData_def demo_blank_form_def demo_unknown_form_def demo_tow_form_def
          demo_unknown_plate)
  ultimately show ?thesis by (simp add: demo_db_def)
qed

lemma demo_blank_effects:
  "snd (handleSubmitTow ascii demo_env (Some ''staff1'') demo_blank_form demo_db) =
     [Alert ''Success'' ''Tow record created successfully'']"
proof -
  have "handleSubmitTow ascii demo_env (Some ''staff1'') demo_blank_form demo_db =
          tow_step ascii demo_env demo_blank_form (Some ''staff1'') (Some ''v9'') []
            (demo_db\<lparr>vehicles := vehicles demo_db @ [newVehicleData ascii demo_blank_form ''v9'']\<rparr>)"
    by (simp add: handleSubmitTow_valid[OF demo_blank_valid])
       (simp add: demo_blank_form_def demo_unknown_form_def demo_tow_form_def demo_env_def)
  then show ?thesis
    by (simp add: tow_step_def fine_step_def notify_step_def tow_success_def
          demo_blank_form_def demo_unknown_form_def demo_tow_form_def demo_env_def)
qed

lemma demo_add_refused:
  "validateForm ascii demo_add_form =
     (\<lparr>err_licensePlate = [], err_make = ''Vehicle make is required'',
       err_model = ''Vehicle model is required'', err_color = []\<rparr>, False)"
  by (simp add: validateForm_def demo_add_form_def ascii_def trim_def is_space_def)

text \<open>
  C9.  The flow creates the vehicle row as claimed, with owner \<^verbatim>\<open>null\<close>, the plate
  upper-cased and the defaults for fields left empty (\<open>unknown_plate_creates_vehicle\<close>),
  but a field is not protected from being left blank: the defaults are applied by
  \<^verbatim>\<open>vehicleMake || 'Unknown'\<close>, which replaces the empty text only.  For the unregistered
  plate \<open>xyz999\<close> with one blank typed into each of make, model and colour, the form
  passes, the user gets the success alert, and the new row has a blank make, model and
  colour.  The owner's add-vehicle form refuses the same make and model.
\<close>

theorem blank_make_stored:
  "vehicles (fst (handleSubmitTow ascii demo_env (Some ''staff1'') demo_blank_form demo_db)) =
     [\<lparr>v_id = ''v9'', v_license_plate = ''XYZ999'', v_make = Some '' '', v_model = '' '',
       v_color = '' '', v_owner_id = None, v_registered_name = None\<rparr>]
   \<and> snd (handleSubmitTow ascii demo_env (Some ''staff1'') demo_blank_form demo_db) =
     [Alert ''Success'' ''Tow record created successfully'']
   \<and> trim '' '' = []
   \<and> vehicles (fst (handleSubmitTow ascii demo_env (Some ''staff1'') demo_unknown_form demo_db)) =
     [\<lparr>v_id = ''v9'', v_license_plate = ''XYZ999'', v_make = Some ''Unknown'', v_model = ''Unknown'',
       v_color = ''unknown'', v_owner_id = None, v_registered_name = None\<rparr>]
   \<and> validateForm ascii demo_add_form =
     (\<lparr>err_licensePlate = [], err_make = ''Vehicle make is required'',
       err_model = ''Vehicle model is required'', err_color = []\<rparr>, False)"
proof -
  have t: "trim '' '' = []" by (simp add: trim_def is_space_def)
  show ?thesis
    by (intro conjI) (rule demo_blank_created demo_blank_effects t demo_unknown_created demo_add_refused)+
qed

lemma found_flow:
  "tow_form_valid js env form \<Longrightarrow> vehicleFound form = Some v \<Longrightarrow>
   handleSubmitTow js env sess form db = tow_step js env form sess (Some (v_id v)) [] db"
  by (simp add: handleSubmitTow_valid)

lemma tow_persists:
  assumes "tow_form_valid js env form" "tow_insert env = Returned tid"
    "vehicleFound form = None \<longrightarrow> (\<forall>m. vehicle_insert env \<noteq> Threw m)"
  shows "tows (fst (handleSubmitTow js env sess form db)) =
           tows db @ [towPayload js form sess
                        (case vehicleFound form of
                           Some v \<Rightarrow> Some (v_id v)
                         | None \<Rightarrow> (case vehicle_insert env of
                                      Returned vid \<Rightarrow> Some vid | Failed e \<Rightarrow> None | Threw m \<Rightarrow> None)) tid]"
proof (cases "vehicleFound form")
  case (Some v)
  with assms show ?thesis by (simp add: handleSubmitTow_valid tow_step_tows)
next
  case None
  show ?thesis
  proof (cases "vehicle_insert env")
    case (Failed e)
    with None assms show ?thesis by (simp add: handleSubmitTow_valid tow_step_tows)
  next
    case (Returned vid)
    with None assms show ?thesis by (simp add: handleSubmitTow_valid tow_step_tows)
  next
    case (Threw m)
    with None assms show ?thesis by simp
  qed
qed

lemma fine_failure:
  assumes "tow_form_valid js env form" "vehicleFound form = Some v" "v_id v \<noteq> []"
    "tow_insert env = Returned tid" "issueFineToo form" "fine_insert env = Failed e"
  shows "handleSubmitTow js env sess form db =
           (db\<lparr>tows := tows db @ [towPayload js form sess (Some (v_id v)) tid]\<rparr>, tow_failed)"
  using assms by (simp add: found_flow tow_step_def fine_step_def)

lemma notification_failure:
  assumes "tow_form_valid js env form" "vehicleFound form = Some v" "\<not> issueFineToo form"
    "tow_insert env = Returned tid" "v_owner_id v = Some owner" "owner \<noteq> []"
    "notification_insert env = Failed e"
  shows "handleSubmitTow js env sess form db =
           (db\<lparr>tows := tows db @ [towPayload js form sess (Some (v_id v)) tid]\<rparr>,
            [ConsoleError ''Error creating notification:''] @ tow_success form)"
  using assms by (simp add: found_flow tow_step_def fine_step_def notify_step_def)

lemma notification_failure_after_fine:
  assumes "tow_form_valid js env form" "vehicleFound form = Some v" "v_id v \<noteq> []" "issueFineToo form"
    "tow_insert env = Returned tid" "fine_insert env = Returned fid"
    "v_owner_id v = Some owner" "owner \<noteq> []" "notification_insert env = Failed e"
  shows "handleSubmitTow js env sess form db =
           (db\<lparr>tows := tows db @ [towPayload js form sess (Some (v_id v)) tid],
                fines := fines db @ [fineData js env form sess (v_id v) tid fid]\<rparr>,
            [ConsoleError ''Error creating notification:''] @ tow_success form)"
  using assms by (simp add: found_flow tow_step_def fine_step_def notify_step_def)

text \<open>
  C10 (as amended).  Once the tow insert has succeeded the tow row is in the final
  database, whatever the later steps do.  If the fine insert then answers with an error,
  the flow stops there: the database has the tow and nothing else new, and the user gets
  the general alert that recording the tow failed.  If the notification insert answers
  with an error, the database has the tow, and the fine if one was inserted, the error
  goes to the console, and the user gets the success alert.
\<close>

theorem tow_writes_not_rolled_back:
  "(tow_form_valid js env form \<and> tow_insert env = Returned tid
      \<and> (vehicleFound form = None \<longrightarrow> (\<forall>m. vehicle_insert env \<noteq> Threw m)) \<longrightarrow>
      tows (fst (handleSubmitTow js env sess form db)) =
        tows db @ [towPayload js form sess
                     (case vehicleFound form of
                        Some v \<Rightarrow> Some (v_id v)
                      | None \<Rightarrow> (case vehicle_insert env of
                                   Returned vid \<Rightarrow> Some vid | Failed e \<Rightarrow> None | Threw m \<Rightarrow> None)) tid])
   \<and> (tow_form_valid js env form \<and> vehicleFound form = Some v \<and> v_id v \<noteq> []
        \<and> tow_insert env = Returned tid \<and> issueFineToo form \<and> fine_insert env = Failed e \<longrightarrow>
        handleSubmitTow js env sess form db =
          (db\<lparr>tows := tows db @ [towPayload js form sess (Some (v_id v)) tid]\<rparr>, tow_failed))
   \<and> (tow_form_valid js env form \<and> vehicleFound form = Some v \<and> \<not> issueFineToo form
        \<and> tow_insert env = Returned tid \<and> v_owner_id v = Some owner \<and> owner \<noteq> []
        \<and> notification_insert env = Failed e \<longrightarrow>
        handleSubmitTow js env sess form db =
          (db\<lparr>tows := tows db @ [towPayload js form sess (Some (v_id v)) tid]\<rparr>,
           [ConsoleError ''Error creating notification:''] @ tow_success form))
   \<and> (tow_form_valid js env form \<and> vehicleFound form = Some v \<and> v_id v \<noteq> [] \<and> issueFineToo form
        \<and> tow_insert env = Returned tid \<and> fine_insert env = Returned fid
        \<and> v_owner_id v = Some owner \<and> owner \<noteq> [] \<and> notification_insert env = Failed e \<longrightarrow>
        handleSubmitTow js env sess form db =
          (db\<lparr>tows := tows db @ [towPayload js form sess (Some (v_id v)) tid],
               fines := fines db @ [fineData js env form sess (v_id v) tid fid]\<rparr>,
           [ConsoleError ''Error creating notification:''] @ tow_success form))"
proof (intro conjI impI)
  assume "tow_form_valid js env form \<and> tow_insert env = Returned tid
      \<and> (vehicleFound form = None \<longrightarrow> (\<forall>m. vehicle_insert env \<noteq> Threw m))"
  then show "tows (fst (handleSubmitTow js env sess form db)) =
        tows db @ [towPayload js form sess
                     (case vehicleFound form of
                        Some v \<Rightarrow> Some (v_id v)
                      | None \<Rightarrow> (case vehicle_insert env of
                                   Returned vid \<Rightarrow> Some vid | Failed e \<Rightarrow> None | Threw m \<Rightarrow> None)) tid]"
    using tow_persists[of js env form tid sess db] by simp
next
  assume "tow_form_valid js env form \<and> vehicleFound form = Some v \<and> v_id v \<noteq> []
        \<and> tow_insert env = Returned tid \<and> issueFineToo form \<and> fine_insert env = Failed e"
  then show "handleSubmitTow js env sess form db =
          (db\<lparr>tows := tows db @ [towPayload js form sess (Some (v_id v)) tid]\<rparr>, tow_failed)"
    using fine_failure[of js env form v tid e sess db] by simp
next
  assume "tow_form_valid js env form \<and> vehicleFound form = Some v \<and> \<not> issueFineToo form
        \<and> tow_insert env = Returned tid \<and> v_owner_id v = Some owner \<and> owner \<noteq> []
        \<and> notification_insert env = Failed e"
  then show "handleSubmitTow js env sess form db =
          (db\<lparr>tows := tows db @ [towPayload js form sess (Some (v_id v)) tid]\<rparr>,
           [ConsoleError ''Error creating notification:''] @ tow_success form)"
    using notification_failure[of js env form v tid owner e sess db] by simp
next
  assume "tow_form_valid js env form \<and> vehicleFound form = Some v \<and> v_id v \<noteq> [] \<and> issueFineToo form
        \<and> tow_insert env = Returned tid \<and> fine_insert env = Returned fid
        \<and> v_owner_id v = Some owner \<and> owner \<noteq> [] \<and> notification_insert env = Failed e"
  then show "handleSubmitTow js env sess form db =
          (db\<lparr>tows := tows db @ [towPayload js form sess (Some (v_id v)) tid],
               fines := fines db @ [fineData js env form sess (v_id v) tid fid]\<rparr>,
           [ConsoleError ''Error creating notification:''] @ tow_success form)"
    using notification_failure_after_fine[of js env form v tid fid owner e sess db] by simp
qed

lemma demo_found_valid:
  "tow_form_valid ascii env demo_found_form"
  by (simp add: tow_form_valid_def demo_found_form_def demo_tow_form_def ascii_def trim_def is_space_def)

lemma demo_fined_valid:
  "parseFloat env = parseFloat demo_env \<Longrightarrow> tow_form_valid ascii env demo_fined_form"
  by (simp add: tow_form_valid_def demo_fined_form_def demo_found_form_def demo_tow_form_def demo_env_def
        ascii_def trim_def is_space_def)

text \<open>
  The tow of the demonstration vehicle with a fine whose insert is refused; without a
  fine when the notification insert cannot reach the backend; and with a fine that is
  inserted when the notification insert cannot reach the backend.
\<close>

theorem tow_writes_not_rolled_back_witness:
  "handleSubmitTow ascii (demo_env\<lparr>fine_insert := Failed ConstraintViolated\<rparr>) (Some ''staff1'') demo_fined_form demo_db =
     (demo_db\<lparr>tows := tows demo_db @ [towPayload ascii demo_fined_form (Some ''staff1'') (Some (v_id demo_vehicle1)) ''t1'']\<rparr>,
      tow_failed)
   \<and> handleSubmitTow ascii (demo_env\<lparr>notification_insert := Failed BackendUnreachable\<rparr>) (Some ''staff1'')
        demo_found_form demo_db =
     (demo_db\<lparr>tows := tows demo_db @ [towPayload ascii demo_found_form (Some ''staff1'') (Some (v_id demo_vehicle1)) ''t1'']\<rparr>,
      [ConsoleError ''Error creating notification:''] @ tow_success demo_found_form)
   \<and> handleSubmitTow ascii (demo_env\<lparr>notification_insert := Failed BackendUnreachable\<rparr>) (Some ''staff1'')
        demo_fined_form demo_db =
     (demo_db\<lparr>tows := tows demo_db @ [towPayload ascii demo_fined_form (Some ''staff1'') (Some (v_id demo_vehicle1)) ''t1''],
               fines := fines demo_db @
                 [fineData ascii (demo_env\<lparr>notification_insert := Failed BackendUnreachable\<rparr>) demo_fined_form
                    (Some ''staff1'') (v_id demo_vehicle1) ''t1'' ''f5'']\<rparr>,
      [ConsoleError ''Error creating notification:''] @ tow_success demo_fined_form)"
proof -
  have h1: "tow_form_valid ascii (demo_env\<lparr>fine_insert := Failed ConstraintViolated\<rparr>) demo_fined_form
        \<and> vehicleFound demo_fined_form = Some demo_vehicle1 \<and> v_id demo_vehicle1 \<noteq> []
        \<and> tow_insert (demo_env\<lparr>fine_insert := Failed ConstraintViolated\<rparr>) = Returned ''t1''
        \<and> issueFineToo demo_fined_form
        \<and> fine_insert (demo_env\<lparr>fine_insert := Failed ConstraintViolated\<rparr>) = Failed ConstraintViolated"
    by (simp add: demo_fined_valid)
       (simp add: demo_fined_form_def demo_found_form_def demo_tow_form_def demo_env_def demo_vehicle1_def)
  have h2: "tow_form_valid ascii (demo_env\<lparr>notification_insert := Failed BackendUnreachable\<rparr>) demo_found_form
        \<and> vehicleFound demo_found_form = Some demo_vehicle1 \<and> \<not> issueFineToo demo_found_form
        \<and> tow_insert (demo_env\<lparr>notification_insert := Failed BackendUnreachable\<rparr>) = Returned ''t1''
        \<and> v_owner_id demo_vehicle1 = Some ''u1'' \<and> ''u1'' \<noteq> []
        \<and> notification_insert (demo_env\<lparr>notification_insert := Failed BackendUnreachable\<rparr>) = Failed BackendUnreachable"
    by (simp add: demo_found_valid)
       (simp add: demo_found_form_def demo_tow_form_def demo_env_def demo_vehicle1_def)
  have h3: "tow_form_valid ascii (demo_env\<lparr>notification_insert := Failed BackendUnreachable\<rparr>) demo_fined_form
        \<and> vehicleFound demo_fined_form = Some demo_vehicle1 \<and> v_id demo_vehicle1 \<noteq> []
        \<and> issueFineToo demo_fined_form
        \<and> tow_insert (demo_env\<lparr>notification_insert := Failed BackendUnreachable\<rparr>) = Returned ''t1''
        \<and> fine_insert (demo_env\<lparr>notification_insert := Failed BackendUnreachable\<rparr>) = Returned ''f5''
        \<and> v_owner_id demo_vehicle1 = Some ''u1'' \<and> ''u1'' \<noteq> []
        \<and> notification_insert (demo_env\<lparr>notification_insert := Failed BackendUnreachable\<rparr>) = Failed BackendUnreachable"
    by (simp add: demo_fined_valid)
       (simp add: demo_fined_form_def demo_found_form_def demo_tow_form_def demo_env_def demo_vehicle1_def)
  from tow_writes_not_rolled_back[where js = ascii and env = "demo_env\<lparr>fine_insert := Failed ConstraintViolated\<rparr>"
         and form = demo_fined_form and tid = "''t1''" and v = demo_vehicle1 and e = ConstraintViolated
         and sess = "Some ''staff1''" and db = demo_db and owner = "''u1''" and fid = "''f5''"] h1
  have a: "handleSubmitTow ascii (demo_env\<lparr>fine_insert := Failed ConstraintViolated\<rparr>) (Some ''staff1'') demo_fined_form demo_db =
     (demo_db\<lparr>tows := tows demo_db @ [towPayload ascii demo_fined_form (Some ''staff1'') (Some (v_id demo_vehicle1)) ''t1'']\<rparr>,
      tow_failed)"
    by blast
  from tow_writes_not_rolled_back[where js = ascii and env = "demo_env\<lparr>notification_insert := Failed BackendUnreachable\<rparr>"
         and form = demo_found_form and tid = "''t1''" and v = demo_vehicle1 and e = BackendUnreachable
         and sess = "Some ''staff1''" and db = demo_db and owner = "''u1''" and fid = "''f5''"] h2
  have b: "handleSubmitTow ascii (demo_env\<lparr>notification_insert := Failed BackendUnreachable\<rparr>) (Some ''staff1'')
        demo_found_form demo_db =
     (demo_db\<lparr>tows := tows demo_db @ [towPayload ascii demo_found_form (Some ''staff1'') (Some (v_id demo_vehicle1)) ''t1'']\<rparr>,
      [ConsoleError ''Error creating notification:''] @ tow_success demo_found_form)"
    by blast
  from tow_writes_not_rolled_back[where js = ascii and env = "demo_env\<lparr>notification_insert := Failed BackendUnreachable\<rparr>"
         and form = demo_fined_form and tid = "''t1''" and v = demo_vehicle1 and e = BackendUnreachable
         and sess = "Some ''staff1''" and db = demo_db and owner = "''u1''" and fid = "''f5''"] h3
  have c: "handleSubmitTow ascii (demo_env\<lparr>notification_insert := Failed BackendUnreachable\<rparr>) (Some ''staff1'')
        demo_fined_form demo_db =
     (demo_db\<lparr>tows := tows demo_db @ [towPayload ascii demo_fined_form (Some ''staff1'') (Some (v_id demo_vehicle1)) ''t1''],
               fines := fines demo_db @
                 [fineData ascii (demo_env\<lparr>notification_insert := Failed BackendUnreachable\<rparr>) demo_fined_form
                    (Some ''staff1'') (v_id demo_vehicle1) ''t1'' ''f5'']\<rparr>,
      [ConsoleError ''Error creating notification:''] @ tow_success demo_fined_form)"
    by blast
  from a b c show ?thesis by (intro conjI)
qed

lemma demo_notified:
  "handleSubmitTow ascii demo_env (Some ''staff1'') demo_found_form demo_db =
     (demo_db\<lparr>tows := tows demo_db @ [towPayload ascii demo_found_form (Some ''staff1'') (Some (v_id demo_vehicle1)) ''t1''],
              notifications := notifications demo_db @ [notificationData demo_found_form ''u1'' ''t1'']\<rparr>,
      tow_success demo_found_form)"
proof -
  have "handleSubmitTow ascii demo_env (Some ''staff1'') demo_found_form demo_db =
          tow_step ascii demo_env demo_found_form (Some ''staff1'') (Some (v_id demo_vehicle1)) [] demo_db"
    by (rule found_flow[OF demo_found_valid]) (simp add: demo_found_form_def)
  also have "\<dots> =
     (demo_db\<lparr>tows := tows demo_db @ [towPayload ascii demo_found_form (Some ''staff1'') (Some (v_id demo_vehicle1)) ''t1''],
              notifications := notifications demo_db @ [notificationData demo_found_form ''u1'' ''t1'']\<rparr>,
      tow_success demo_found_form)"
    by (simp add: tow_step_def fine_step_def notify_step_def
          demo_found_form_def demo_tow_form_def demo_env_def demo_vehicle1_def)
  finally show ?thesis .
qed

lemma demo_not_notified:
  "handleSubmitTow ascii (demo_env\<lparr>notification_insert := Failed BackendUnreachable\<rparr>) (Some ''staff1'')
        demo_found_form demo_db =
     (demo_db\<lparr>tows := tows demo_db @ [towPayload ascii demo_found_form (Some ''staff1'') (Some (v_id demo_vehicle1)) ''t1'']\<rparr>,
      [ConsoleError ''Error creating notification:''] @ tow_success demo_found_form)"
  by (rule notification_failure[OF demo_found_valid, of demo_vehicle1 _ "''t1''" "''u1''" BackendUnreachable])
     (simp_all add: demo_found_form_def demo_tow_form_def demo_env_def demo_vehicle1_def)

text \<open>
  C10 as stated fails.  When the notification insert fails, the alerts the user sees are
  those of a run in which it succeeds, the success alert alone, while no notification
  row exists and the tow row does.
\<close>

theorem notification_failure_not_surfaced:
  "filter is_alert (snd (handleSubmitTow ascii (demo_env\<lparr>notification_insert := Failed BackendUnreachable\<rparr>)
                           (Some ''staff1'') demo_found_form demo_db)) =
     [Alert ''Success'' ''Tow record created successfully'']
   \<and> filter is_alert (snd (handleSubmitTow ascii demo_env (Some ''staff1'') demo_found_form demo_db)) =
     [Alert ''Success'' ''Tow record created successfully'']
   \<and> notifications (fst (handleSubmitTow ascii (demo_env\<lparr>notification_insert := Failed BackendUnreachable\<rparr>)
                           (Some ''staff1'') demo_found_form demo_db)) = []
   \<and> map t_id (tows (fst (handleSubmitTow ascii (demo_env\<lparr>notification_insert := Failed BackendUnreachable\<rparr>)
                           (Some ''staff1'') demo_found_form demo_db))) = [''t1'']"
  by (simp only: demo_notified demo_not_notified)
     (simp add: is_alert_def tow_success_def demo_found_form_def demo_tow_form_def demo_db_def towPayload_def)

end
